theory Spec2Isabelle
  imports Main "HOL-Library.Word"
begin

section \<open>The VimbaX camera node: streaming lifecycle and request dispatch\<close>

text \<open>
  A shallow embedding of \<^verbatim>\<open>vimbax_camera/src/vimbax_camera_node.cpp\<close>. The node owns a
  camera handle, a graph-notify thread that starts and stops streaming with the number of
  image subscribers, a frame callback that republishes each frame and requeues its buffer,
  and one service handler per remote operation.

  The camera handle (\<^verbatim>\<open>VimbaXCamera\<close>), the frames, the image publisher and the ROS
  runtime are collaborators of this file. A call into one of them is modelled by the
  reply it gives, which is an input of the model, and by an entry in the list of effects
  the operation returns. State the node itself keeps is a field of \<open>node\<close>.
\<close>

subsection \<open>Machine integers, errors and results\<close>

type_synonym int32 = "32 word"
type_synonym int64 = "64 word"
type_synonym float64 = "64 word"

text \<open>
  \<^verbatim>\<open>int64_t\<close> and \<^verbatim>\<open>int32_t\<close> are words; a \<^verbatim>\<open>double\<close> is only ever copied by this
  file, so it is carried as its 64-bit pattern. \<^verbatim>\<open>result<T>\<close> is either an error, of
  which the node reads the field \<^verbatim>\<open>code\<close>, or a value: \<open>Inl\<close> is the error.
\<close>

datatype error = Error (code: int32)

type_synonym 'a result = "error + 'a"

text \<open>\<^verbatim>\<open>VmbErrorSuccess\<close> comes from the VmbC header; it is the constant 0 there.\<close>

definition VmbErrorSuccess :: int32 where
  "VmbErrorSuccess = 0"

subsection \<open>Frames, effects and the node\<close>

text \<open>
  A frame as the frame callback sees it: \<^verbatim>\<open>frame->get_frame_id()\<close>, read at the type
  \<^verbatim>\<open>int64_t\<close> of the static it is subtracted from, and the code that \<^verbatim>\<open>frame->queue()\<close>
  returns when the callback hands the buffer back to the device.
\<close>

record frame =
  get_frame_id :: int64
  queue :: int32

text \<open>
  What \<^verbatim>\<open>image_publisher_.publish(frame)\<close> does is outside this file: it returns (whether
  or not a subscriber received the image), or it throws.
\<close>

datatype publish_reply = Publish_returns | Publish_throws

datatype 'a outcome = Returns 'a | Throws

text \<open>
  The calls the node makes into its collaborators, and the lines it logs, in the order
  the code makes them.
\<close>

datatype effect =
    Log_warn_frames_missing int64
  | Log_error_requeue_failed int32
  | Log_info_stream_started int
  | Log_info_stream_stopped
  | Publish frame
  | Frame_queue frame
  | Camera_start_streaming int
  | Camera_stop_streaming
  | Store_stop_threads
  | Join_graph_notify_thread
  | Camera_reset

text \<open>
  The members of \<^verbatim>\<open>VimbaXCameraNode\<close> the modelled operations read or write:
  \<open>stop_threads\<close> is the atomic flag, \<open>graph_notify_thread\<close> and \<open>camera_open\<close> say
  whether the two pointers are non-null, \<open>is_streaming\<close> is what
  \<^verbatim>\<open>camera_->is_streaming()\<close> answers, \<open>buffer_count\<close> is the value of the parameter of
  that name, and \<open>lastFrameId\<close> is the function-local \<^verbatim>\<open>static int64_t lastFrameId\<close>
  of the frame callback, which lives as long as the process.
\<close>

record node =
  stop_threads :: bool
  graph_notify_thread :: bool
  camera_open :: bool
  is_streaming :: bool
  buffer_count :: int
  lastFrameId :: int64

text \<open>
  The node as \<^verbatim>\<open>make_shared\<close> returns it: both pointers set, the camera idle, the
  parameter at its declared default 7, and the static at its initialiser \<open>-1\<close>.
\<close>

definition initial_node :: node where
  "initial_node =
     \<lparr>stop_threads = False, graph_notify_thread = True, camera_open = True,
      is_streaming = False, buffer_count = 7, lastFrameId = - 1\<rparr>"

subsection \<open>The frame callback\<close>

text \<open>
  The lambda passed to \<^verbatim>\<open>camera_->start_streaming\<close>. There is no \<^verbatim>\<open>try\<close> in it: when
  \<^verbatim>\<open>publish\<close> throws, the exception leaves the lambda and the statements after the call
  do not run. The assignment to the static has happened by then.
\<close>

definition frame_callback :: "publish_reply \<Rightarrow> frame \<Rightarrow> node \<Rightarrow> unit outcome \<times> effect list \<times> node" where
  "frame_callback pub fr st =
     (let diff = get_frame_id fr - lastFrameId st;
          warn = (if 1 <s diff then [Log_warn_frames_missing (diff - 1)] else []);
          st' = st\<lparr>lastFrameId := get_frame_id fr\<rparr>
      in case pub of
           Publish_throws \<Rightarrow> (Throws, warn @ [Publish fr], st')
         | Publish_returns \<Rightarrow>
             (let queue_error = queue fr
              in (Returns (),
                  warn @ [Publish fr, Frame_queue fr] @
                    (if queue_error \<noteq> VmbErrorSuccess
                     then [Log_error_requeue_failed queue_error] else []),
                  st')))"

text \<open>
  The device delivers frames one after the other. A delivery is the frame and what
  \<^verbatim>\<open>publish\<close> does for it; an exception that leaves the callback ends the run.
\<close>

fun deliver :: "(publish_reply \<times> frame) list \<Rightarrow> node \<Rightarrow> unit outcome \<times> effect list \<times> node" where
  "deliver [] st = (Returns (), [], st)"
| "deliver ((pub, fr) # ds) st =
     (case frame_callback pub fr st of
        (Throws, es, st') \<Rightarrow> (Throws, es, st')
      | (Returns u, es, st') \<Rightarrow>
          (case deliver ds st' of (r, es', st'') \<Rightarrow> (r, es @ es', st'')))"

text \<open>The missing-frame diagnostics among some effects, and the requeues of one frame.\<close>

fun frames_missing :: "effect list \<Rightarrow> int64 list" where
  "frames_missing [] = []"
| "frames_missing (Log_warn_frames_missing n # es) = n # frames_missing es"
| "frames_missing (e # es) = frames_missing es"

definition requeues :: "frame \<Rightarrow> effect list \<Rightarrow> nat" where
  "requeues fr es = count_list es (Frame_queue fr)"

text \<open>
  Sequence ids that go up by exactly one from \<open>prev\<close> on, read as signed 64-bit numbers.
\<close>

fun gap_free :: "int64 \<Rightarrow> int64 list \<Rightarrow> bool" where
  "gap_free prev [] = True"
| "gap_free prev (x # xs) = (sint x = sint prev + 1 \<and> gap_free x xs)"

subsection \<open>Starting and stopping the stream\<close>

text \<open>
  \<^verbatim>\<open>camera_->start_streaming\<close> and \<^verbatim>\<open>camera_->stop_streaming\<close> belong to the camera
  handle. A reply holds the \<^verbatim>\<open>result<void>\<close> the call returns and what
  \<^verbatim>\<open>camera_->is_streaming()\<close> answers once it has returned; the theorems below hold for
  every reply.
\<close>

record camera_reply =
  reply_result :: "unit result"
  reply_streaming :: bool

text \<open>
  \<^verbatim>\<open>VimbaXCameraNode::start_streaming\<close> reads the parameter, calls the camera with the
  frame callback, logs, and returns the camera's result. It does not touch
  \<open>lastFrameId\<close>: the static belongs to the lambda's body.
\<close>

definition start_streaming :: "camera_reply \<Rightarrow> node \<Rightarrow> unit result \<times> effect list \<times> node" where
  "start_streaming reply st =
     (let n = buffer_count st;
          err = reply_result reply;
          st' = st\<lparr>is_streaming := reply_streaming reply\<rparr>
      in (err, [Camera_start_streaming n, Log_info_stream_started n], st'))"

text \<open>\<^verbatim>\<open>VimbaXCameraNode::stop_streaming\<close> is \<^verbatim>\<open>void\<close>: the camera's result is dropped.\<close>

definition stop_streaming :: "camera_reply \<Rightarrow> node \<Rightarrow> effect list \<times> node" where
  "stop_streaming reply st =
     ([Camera_stop_streaming, Log_info_stream_stopped],
      st\<lparr>is_streaming := reply_streaming reply\<rparr>)"

subsection \<open>The graph-notify thread\<close>

text \<open>
  One pass of the loop body in \<^verbatim>\<open>initialize_graph_notify\<close>, after the bounded wait:
  \<open>check_and_clear\<close> says whether the graph changed, \<open>getNumSubscribers\<close> is the
  publisher's subscriber count, and the two replies are the camera's, should the pass
  call it. The pass reads the count and the streaming flag once per condition; the model
  takes both reads of a pass to see the same value.
\<close>

record wake =
  check_and_clear :: bool
  getNumSubscribers :: nat
  start_reply :: camera_reply
  stop_reply :: camera_reply

definition graph_notify_iteration :: "wake \<Rightarrow> node \<Rightarrow> effect list \<times> node" where
  "graph_notify_iteration w st =
     (if check_and_clear w then
        (if getNumSubscribers w > 0 \<and> \<not> is_streaming st then
           (case start_streaming (start_reply w) st of (r, es, st') \<Rightarrow> (es, st'))
         else if getNumSubscribers w = 0 \<and> is_streaming st then
           stop_streaming (stop_reply w) st
         else ([], st))
      else ([], st))"

text \<open>
  The loop runs while the stop flag is down. The list holds the passes the thread gets
  to make; the flag is read at the head of each.
\<close>

fun graph_notify_loop :: "wake list \<Rightarrow> node \<Rightarrow> effect list \<times> node" where
  "graph_notify_loop [] st = ([], st)"
| "graph_notify_loop (w # ws) st =
     (if stop_threads st then ([], st)
      else (case graph_notify_iteration w st of
              (es, st') \<Rightarrow>
                (case graph_notify_loop ws st' of (es', st'') \<Rightarrow> (es @ es', st''))))"

text \<open>The stream transitions requested among some effects.\<close>

fun is_start :: "effect \<Rightarrow> bool" where
  "is_start (Camera_start_streaming n) = True"
| "is_start e = False"

definition starts :: "effect list \<Rightarrow> nat" where
  "starts es = length (filter is_start es)"

definition stops :: "effect list \<Rightarrow> nat" where
  "stops es = count_list es Camera_stop_streaming"

subsection \<open>Teardown\<close>

text \<open>
  The destructor: store the flag, join the thread if there is one, stop the camera if
  there is one and it streams, release the handle. It calls the camera directly, so the
  only reply it can need is the one to \<^verbatim>\<open>stop_streaming\<close>.
\<close>

definition destructor :: "camera_reply \<Rightarrow> node \<Rightarrow> effect list \<times> node" where
  "destructor reply st =
     (let st1 = st\<lparr>stop_threads := True\<rparr>;
          joined = (if graph_notify_thread st1 then [Join_graph_notify_thread] else []);
          stopping = camera_open st1 \<and> is_streaming st1;
          stopped = (if stopping then [Camera_stop_streaming] else []);
          st2 = (if stopping then st1\<lparr>is_streaming := reply_streaming reply\<rparr> else st1);
          st3 = st2\<lparr>camera_open := False\<rparr>
      in ([Store_stop_threads] @ joined @ stopped @ [Camera_reset], st3))"

text \<open>\<open>a\<close> occurs in \<open>es\<close>, and \<open>b\<close> occurs after its first occurrence.\<close>

definition precedes :: "'a \<Rightarrow> 'a \<Rightarrow> 'a list \<Rightarrow> bool" where
  "precedes a b es = (b \<in> set (drop 1 (dropWhile (\<lambda>e. e \<noteq> a) es)))"

subsection \<open>The buffer-count parameter\<close>

text \<open>
  Modelled from the spec: the name of the parameter is a constant of the node's header,
  which is not part of the source at hand; the spec calls the setting \<open>buffer_count\<close>.
\<close>

definition parameter_buffer_count :: string where
  "parameter_buffer_count = ''buffer_count''"

datatype parameter_value = Integer_value int | String_value string

record parameter =
  get_name :: string
  get_value :: parameter_value

record SetParametersResult =
  successful :: bool
  reason :: string

text \<open>
  The callback registered in \<^verbatim>\<open>initialize_parameters\<close>: the loop over the requested
  parameters returns from inside as soon as one is the buffer count and the camera streams.
\<close>

fun on_set_parameters_callback :: "node \<Rightarrow> parameter list \<Rightarrow> SetParametersResult" where
  "on_set_parameters_callback st [] = \<lparr>successful = True, reason = []\<rparr>"
| "on_set_parameters_callback st (param # params) =
     (if get_name param = parameter_buffer_count then
        (if is_streaming st then
           \<lparr>successful = False,
            reason = ''Buffer count change not supported while streaming''\<rparr>
         else on_set_parameters_callback st params)
      else on_set_parameters_callback st params)"

text \<open>The range \<^verbatim>\<open>initialize_parameters\<close> declares for the parameter.\<close>

record IntegerRange =
  from_value :: int
  step :: int
  to_value :: int

definition bufferCountRange :: IntegerRange where
  "bufferCountRange = \<lparr>from_value = 3, step = 1, to_value = 1000\<rparr>"

definition complies :: "IntegerRange \<Rightarrow> int \<Rightarrow> bool" where
  "complies r v = (from_value r \<le> v \<and> v \<le> to_value r \<and> (v - from_value r) mod step r = 0)"

text \<open>
  A request to set the buffer count, as the parameter runtime of the node serves it: the
  callback may refuse it, then the declared range may, and otherwise the value is stored,
  where the next \<open>start_streaming\<close> reads it.
\<close>

datatype set_outcome = Stored | Refused_by_callback SetParametersResult | Refused_by_range

definition set_buffer_count :: "int \<Rightarrow> node \<Rightarrow> set_outcome \<times> node" where
  "set_buffer_count v st =
     (let r = on_set_parameters_callback st
                [\<lparr>get_name = parameter_buffer_count, get_value = Integer_value v\<rparr>]
      in if \<not> successful r then (Refused_by_callback r, st)
         else if \<not> complies bufferCountRange v then (Refused_by_range, st)
         else (Stored, st\<lparr>buffer_count := v\<rparr>))"

subsection \<open>Requests, responses and the camera's feature interface\<close>

text \<open>
  The service messages come from the message package and the feature calls from the
  camera handle; this file only moves values between them. A response is passed in by
  the runtime and filled in place, so a handler maps the response it is given to the
  response it leaves. Fields of different messages that share a name are told apart by
  a prefix (\<open>request_value\<close>, \<open>response_value\<close>, \<open>response_min\<close> ...); the camera's own
  structures carry \<open>info_\<close>. Message fields have the type of the value assigned to them.
\<close>

record feature_request =
  feature_name :: string

record 'a feature_value_request = feature_request +
  request_value :: 'a

record enum_as_int_request = feature_request +
  request_option :: string

record raw_set_request = feature_request +
  request_buffer :: "8 word list"

record info_query_request =
  feature_names :: "string list"

record settings_request =
  filename :: string

type_synonym empty_request = unit

record response =
  error :: int32

record 'a value_response = response +
  response_value :: 'a

record 'a info_response = response +
  response_min :: 'a
  response_max :: 'a
  inc :: 'a

record float_info_response = "float64 info_response" +
  inc_available :: bool

record max_length_response = response +
  max_length :: int64

record is_done_response = response +
  is_done :: bool

record enum_info_response = response +
  possible_values :: "string list"
  available_values :: "string list"

record option_response = response +
  response_option :: string

record raw_get_response = response +
  response_buffer :: "8 word list"
  buffer_size :: nat

record access_mode_response = response +
  is_readable :: bool
  is_writeable :: bool

record features_list_response = response +
  feature_list :: "string list"

text \<open>One entry of the feature-info list, on the camera's side and in the message alike.\<close>

record feature_flags =
  flag_none :: bool
  flag_read :: bool
  flag_write :: bool
  flag_volatile :: bool
  flag_modify_write :: bool

record feature_info_entry =
  name :: string
  category :: string
  entry_display_name :: string
  sfnc_namespace :: string
  unit_name :: string
  data_type :: int32
  flags :: feature_flags
  polling_time :: int32

record feature_info_response = response +
  feature_info :: "feature_info_entry list"

record feature_float_info =
  info_min :: float64
  info_max :: float64
  info_inc :: float64
  info_inc_available :: bool

record camera_info =
  info_display_name :: string
  info_model_name :: string
  info_firmware_version :: string
  info_device_id :: string
  info_device_user_id :: string
  info_device_serial_number :: string
  info_interface_id :: string
  info_transport_layer_id :: string
  info_streaming :: bool
  info_width :: int64
  info_height :: int64
  info_frame_rate :: float64
  info_pixel_format :: string
  info_trigger_mode :: string
  info_trigger_source :: string
  info_ip_address :: "string option"
  info_mac_address :: "string option"

record status_response = response +
  display_name :: string
  model_name :: string
  device_firmware_version :: string
  device_id :: string
  device_user_id :: string
  device_serial_number :: string
  interface_id :: string
  transport_layer_id :: string
  streaming :: bool
  width :: int64
  height :: int64
  frame_rate :: float64
  pixel_format :: string
  trigger_mode :: string
  trigger_source :: string
  ip_address :: string
  mac_address :: string

text \<open>
  The feature, settings and info calls of the camera handle, each by what it returns
  for its arguments. \<^verbatim>\<open>std::array\<close> results are tuples.
\<close>

record camera =
  feature_int_get :: "string \<Rightarrow> int64 result"
  feature_int_set :: "string \<Rightarrow> int64 \<Rightarrow> unit result"
  feature_int_info_get :: "string \<Rightarrow> (int64 \<times> int64 \<times> int64) result"
  feature_float_get :: "string \<Rightarrow> float64 result"
  feature_float_set :: "string \<Rightarrow> float64 \<Rightarrow> unit result"
  feature_float_info_get :: "string \<Rightarrow> feature_float_info result"
  feature_string_get :: "string \<Rightarrow> string result"
  feature_string_set :: "string \<Rightarrow> string \<Rightarrow> unit result"
  feature_string_info_get :: "string \<Rightarrow> int64 result"
  feature_bool_get :: "string \<Rightarrow> bool result"
  feature_bool_set :: "string \<Rightarrow> bool \<Rightarrow> unit result"
  feature_command_is_done :: "string \<Rightarrow> bool result"
  feature_command_run :: "string \<Rightarrow> unit result"
  feature_enum_get :: "string \<Rightarrow> string result"
  feature_enum_set :: "string \<Rightarrow> string \<Rightarrow> unit result"
  feature_enum_info_get :: "string \<Rightarrow> (string list \<times> string list) result"
  feature_enum_as_int_get :: "string \<Rightarrow> string \<Rightarrow> int64 result"
  feature_enum_as_string_get :: "string \<Rightarrow> int64 \<Rightarrow> string result"
  feature_raw_get :: "string \<Rightarrow> 8 word list result"
  feature_raw_set :: "string \<Rightarrow> 8 word list \<Rightarrow> unit result"
  feature_raw_info_get :: "string \<Rightarrow> int64 result"
  feature_access_mode_get :: "string \<Rightarrow> (bool \<times> bool) result"
  feature_info_query_list :: "string list \<Rightarrow> feature_info_entry list result"
  features_list_get :: "string list result"
  settings_save :: "string \<Rightarrow> unit result"
  settings_load :: "string \<Rightarrow> unit result"
  camera_info_get :: "camera_info result"

subsection \<open>The service handlers\<close>

text \<open>
  The lambdas registered in \<^verbatim>\<open>initialize_services\<close>, in the order of the source. Each
  makes one camera call; on an error it sets the response's error to the error's code,
  otherwise it assigns the payload fields.
\<close>

definition feature_int_get_service :: "camera \<Rightarrow> feature_request \<Rightarrow> int64 value_response \<Rightarrow> int64 value_response" where
  "feature_int_get_service camera request response =
     (case feature_int_get camera (feature_name request) of
        Inl e \<Rightarrow> response\<lparr>error := code e\<rparr>
      | Inr v \<Rightarrow> response\<lparr>response_value := v\<rparr>)"

definition feature_int_set_service :: "camera \<Rightarrow> int64 feature_value_request \<Rightarrow> response \<Rightarrow> response" where
  "feature_int_set_service camera request response =
     (case feature_int_set camera (feature_name request) (request_value request) of
        Inl e \<Rightarrow> response\<lparr>error := code e\<rparr>
      | Inr v \<Rightarrow> response)"

definition feature_int_info_get_service :: "camera \<Rightarrow> feature_request \<Rightarrow> int64 info_response \<Rightarrow> int64 info_response" where
  "feature_int_info_get_service camera request response =
     (case feature_int_info_get camera (feature_name request) of
        Inl e \<Rightarrow> response\<lparr>error := code e\<rparr>
      | Inr v \<Rightarrow> response\<lparr>response_min := fst v, response_max := fst (snd v), inc := snd (snd v)\<rparr>)"

definition feature_float_get_service :: "camera \<Rightarrow> feature_request \<Rightarrow> float64 value_response \<Rightarrow> float64 value_response" where
  "feature_float_get_service camera request response =
     (case feature_float_get camera (feature_name request) of
        Inl e \<Rightarrow> response\<lparr>error := code e\<rparr>
      | Inr v \<Rightarrow> response\<lparr>response_value := v\<rparr>)"

definition feature_float_set_service :: "camera \<Rightarrow> float64 feature_value_request \<Rightarrow> response \<Rightarrow> response" where
  "feature_float_set_service camera request response =
     (case feature_float_set camera (feature_name request) (request_value request) of
        Inl e \<Rightarrow> response\<lparr>error := code e\<rparr>
      | Inr v \<Rightarrow> response)"

definition feature_float_info_get_service :: "camera \<Rightarrow> feature_request \<Rightarrow> float_info_response \<Rightarrow> float_info_response" where
  "feature_float_info_get_service camera request response =
     (case feature_float_info_get camera (feature_name request) of
        Inl e \<Rightarrow> response\<lparr>error := code e\<rparr>
      | Inr v \<Rightarrow> response\<lparr>response_min := info_min v, response_max := info_max v, inc := info_inc v, inc_available := info_inc_available v\<rparr>)"

definition feature_string_get_service :: "camera \<Rightarrow> feature_request \<Rightarrow> string value_response \<Rightarrow> string value_response" where
  "feature_string_get_service camera request response =
     (case feature_string_get camera (feature_name request) of
        Inl e \<Rightarrow> response\<lparr>error := code e\<rparr>
      | Inr v \<Rightarrow> response\<lparr>response_value := v\<rparr>)"

definition feature_string_set_service :: "camera \<Rightarrow> string feature_value_request \<Rightarrow> response \<Rightarrow> response" where
  "feature_string_set_service camera request response =
     (case feature_string_set camera (feature_name request) (request_value request) of
        Inl e \<Rightarrow> response\<lparr>error := code e\<rparr>
      | Inr v \<Rightarrow> response)"

definition feature_string_info_get_service :: "camera \<Rightarrow> feature_request \<Rightarrow> max_length_response \<Rightarrow> max_length_response" where
  "feature_string_info_get_service camera request response =
     (case feature_string_info_get camera (feature_name request) of
        Inl e \<Rightarrow> response\<lparr>error := code e\<rparr>
      | Inr v \<Rightarrow> response\<lparr>max_length := v\<rparr>)"

definition feature_bool_get_service :: "camera \<Rightarrow> feature_request \<Rightarrow> bool value_response \<Rightarrow> bool value_response" where
  "feature_bool_get_service camera request response =
     (case feature_bool_get camera (feature_name request) of
        Inl e \<Rightarrow> response\<lparr>error := code e\<rparr>
      | Inr v \<Rightarrow> response\<lparr>response_value := v\<rparr>)"

definition feature_bool_set_service :: "camera \<Rightarrow> bool feature_value_request \<Rightarrow> response \<Rightarrow> response" where
  "feature_bool_set_service camera request response =
     (case feature_bool_set camera (feature_name request) (request_value request) of
        Inl e \<Rightarrow> response\<lparr>error := code e\<rparr>
      | Inr v \<Rightarrow> response)"

definition feature_command_is_done_service :: "camera \<Rightarrow> feature_request \<Rightarrow> is_done_response \<Rightarrow> is_done_response" where
  "feature_command_is_done_service camera request response =
     (case feature_command_is_done camera (feature_name request) of
        Inl e \<Rightarrow> response\<lparr>error := code e\<rparr>
      | Inr v \<Rightarrow> response\<lparr>is_done := v\<rparr>)"

definition feature_command_run_service :: "camera \<Rightarrow> feature_request \<Rightarrow> response \<Rightarrow> response" where
  "feature_command_run_service camera request response =
     (case feature_command_run camera (feature_name request) of
        Inl e \<Rightarrow> response\<lparr>error := code e\<rparr>
      | Inr v \<Rightarrow> response)"

definition feature_enum_get_service :: "camera \<Rightarrow> feature_request \<Rightarrow> string value_response \<Rightarrow> string value_response" where
  "feature_enum_get_service camera request response =
     (case feature_enum_get camera (feature_name request) of
        Inl e \<Rightarrow> response\<lparr>error := code e\<rparr>
      | Inr v \<Rightarrow> response\<lparr>response_value := v\<rparr>)"

definition feature_enum_set_service :: "camera \<Rightarrow> string feature_value_request \<Rightarrow> response \<Rightarrow> response" where
  "feature_enum_set_service camera request response =
     (case feature_enum_set camera (feature_name request) (request_value request) of
        Inl e \<Rightarrow> response\<lparr>error := code e\<rparr>
      | Inr v \<Rightarrow> response)"

definition feature_enum_info_get_service :: "camera \<Rightarrow> feature_request \<Rightarrow> enum_info_response \<Rightarrow> enum_info_response" where
  "feature_enum_info_get_service camera request response =
     (case feature_enum_info_get camera (feature_name request) of
        Inl e \<Rightarrow> response\<lparr>error := code e\<rparr>
      | Inr v \<Rightarrow> response\<lparr>possible_values := fst v, available_values := snd v\<rparr>)"

definition feature_enum_as_int_get_service :: "camera \<Rightarrow> enum_as_int_request \<Rightarrow> int64 value_response \<Rightarrow> int64 value_response" where
  "feature_enum_as_int_get_service camera request response =
     (case feature_enum_as_int_get camera (feature_name request) (request_option request) of
        Inl e \<Rightarrow> response\<lparr>error := code e\<rparr>
      | Inr v \<Rightarrow> response\<lparr>response_value := v\<rparr>)"

definition feature_enum_as_string_get_service :: "camera \<Rightarrow> int64 feature_value_request \<Rightarrow> option_response \<Rightarrow> option_response" where
  "feature_enum_as_string_get_service camera request response =
     (case feature_enum_as_string_get camera (feature_name request) (request_value request) of
        Inl e \<Rightarrow> response\<lparr>error := code e\<rparr>
      | Inr v \<Rightarrow> response\<lparr>response_option := v\<rparr>)"

definition feature_raw_get_service :: "camera \<Rightarrow> feature_request \<Rightarrow> raw_get_response \<Rightarrow> raw_get_response" where
  "feature_raw_get_service camera request response =
     (case feature_raw_get camera (feature_name request) of
        Inl e \<Rightarrow> response\<lparr>error := code e\<rparr>
      | Inr v \<Rightarrow> response\<lparr>response_buffer := v, buffer_size := length v\<rparr>)"

definition feature_raw_set_service :: "camera \<Rightarrow> raw_set_request \<Rightarrow> response \<Rightarrow> response" where
  "feature_raw_set_service camera request response =
     (case feature_raw_set camera (feature_name request) (request_buffer request) of
        Inl e \<Rightarrow> response\<lparr>error := code e\<rparr>
      | Inr v \<Rightarrow> response)"

definition feature_raw_info_get_service :: "camera \<Rightarrow> feature_request \<Rightarrow> max_length_response \<Rightarrow> max_length_response" where
  "feature_raw_info_get_service camera request response =
     (case feature_raw_info_get camera (feature_name request) of
        Inl e \<Rightarrow> response\<lparr>error := code e\<rparr>
      | Inr v \<Rightarrow> response\<lparr>max_length := v\<rparr>)"

definition feature_access_mode_get_service :: "camera \<Rightarrow> feature_request \<Rightarrow> access_mode_response \<Rightarrow> access_mode_response" where
  "feature_access_mode_get_service camera request response =
     (case feature_access_mode_get camera (feature_name request) of
        Inl e \<Rightarrow> response\<lparr>error := code e\<rparr>
      | Inr v \<Rightarrow> response\<lparr>is_readable := fst v, is_writeable := snd v\<rparr>)"

text \<open>
  \<^verbatim>\<open>feature_info_query\<close> resizes the response's list to the size of the result and copies
  the entries field by field at a running index. \<^verbatim>\<open>at(index)\<close> throws when the index is
  out of range: \<open>None\<close>.
\<close>

definition default_feature_info_entry :: feature_info_entry where
  "default_feature_info_entry =
     \<lparr>name = [], category = [], entry_display_name = [], sfnc_namespace = [], unit_name = [],
      data_type = 0,
      flags = \<lparr>flag_none = False, flag_read = False, flag_write = False, flag_volatile = False,
               flag_modify_write = False\<rparr>,
      polling_time = 0\<rparr>"

definition resize :: "nat \<Rightarrow> feature_info_entry list \<Rightarrow> feature_info_entry list" where
  "resize n xs = take n xs @ replicate (n - length xs) default_feature_info_entry"

fun copy_feature_info ::
  "nat \<Rightarrow> feature_info_entry list \<Rightarrow> feature_info_entry list \<Rightarrow> feature_info_entry list option" where
  "copy_feature_info index [] out = Some out"
| "copy_feature_info index (data # rest) out =
     (if index < length out then
        copy_feature_info (index + 1) rest
          (out[index := (out ! index)
             \<lparr>name := name data,
              category := category data,
              entry_display_name := entry_display_name data,
              sfnc_namespace := sfnc_namespace data,
              unit_name := unit_name data,
              data_type := data_type data,
              flags := (flags (out ! index))
                \<lparr>flag_none := flag_none (flags data),
                 flag_read := flag_read (flags data),
                 flag_write := flag_write (flags data),
                 flag_volatile := flag_volatile (flags data),
                 flag_modify_write := flag_modify_write (flags data)\<rparr>,
              polling_time := polling_time data\<rparr>])
      else None)"

definition feature_info_query_service ::
  "camera \<Rightarrow> info_query_request \<Rightarrow> feature_info_response \<Rightarrow> feature_info_response outcome" where
  "feature_info_query_service camera request response =
     (case feature_info_query_list camera (feature_names request) of
        Inl e \<Rightarrow> Returns (response\<lparr>error := code e\<rparr>)
      | Inr v \<Rightarrow>
          (case copy_feature_info 0 v (resize (length v) (feature_info response)) of
             None \<Rightarrow> Throws
           | Some filled \<Rightarrow> Returns (response\<lparr>feature_info := filled\<rparr>)))"

definition features_list_get_service :: "camera \<Rightarrow> empty_request \<Rightarrow> features_list_response \<Rightarrow> features_list_response" where
  "features_list_get_service camera request response =
     (case features_list_get camera of
        Inl e \<Rightarrow> response\<lparr>error := code e\<rparr>
      | Inr v \<Rightarrow> response\<lparr>feature_list := v\<rparr>)"

definition settings_save_service :: "camera \<Rightarrow> settings_request \<Rightarrow> response \<Rightarrow> response" where
  "settings_save_service camera request response =
     (case settings_save camera (filename request) of
        Inl e \<Rightarrow> response\<lparr>error := code e\<rparr>
      | Inr v \<Rightarrow> response)"

definition settings_load_service :: "camera \<Rightarrow> settings_request \<Rightarrow> response \<Rightarrow> response" where
  "settings_load_service camera request response =
     (case settings_load camera (filename request) of
        Inl e \<Rightarrow> response\<lparr>error := code e\<rparr>
      | Inr v \<Rightarrow> response)"

text \<open>\<^verbatim>\<open>status\<close>: the address fields are assigned only when the camera reports them.\<close>

definition status_service :: "camera \<Rightarrow> empty_request \<Rightarrow> status_response \<Rightarrow> status_response" where
  "status_service camera request response =
     (case camera_info_get camera of
        Inl e \<Rightarrow> response\<lparr>error := code e\<rparr>
      | Inr info \<Rightarrow>
          (let r1 = response
                 \<lparr>display_name := info_display_name info,
                  model_name := info_model_name info,
                  device_firmware_version := info_firmware_version info,
                  device_id := info_device_id info,
                  device_user_id := info_device_user_id info,
                  device_serial_number := info_device_serial_number info,
                  interface_id := info_interface_id info,
                  transport_layer_id := info_transport_layer_id info,
                  streaming := info_streaming info,
                  width := info_width info,
                  height := info_height info,
                  frame_rate := info_frame_rate info,
                  pixel_format := info_pixel_format info,
                  trigger_mode := info_trigger_mode info,
                  trigger_source := info_trigger_source info\<rparr>;
               r2 = (case info_ip_address info of
                       Some a \<Rightarrow> r1\<lparr>ip_address := a\<rparr> | None \<Rightarrow> r1)
           in (case info_mac_address info of
                 Some a \<Rightarrow> r2\<lparr>mac_address := a\<rparr> | None \<Rightarrow> r2)))"

text \<open>
  \<^verbatim>\<open>stream_start\<close> goes through the node's \<open>start_streaming\<close>; \<^verbatim>\<open>stream_stop\<close> calls
  \<^verbatim>\<open>camera_->stop_streaming()\<close> itself and reads its result.
\<close>

definition stream_start_service ::
  "camera_reply \<Rightarrow> node \<Rightarrow> response \<Rightarrow> response \<times> effect list \<times> node" where
  "stream_start_service reply st response =
     (case start_streaming reply st of
        (result, es, st') \<Rightarrow>
          (case result of
             Inl e \<Rightarrow> (response\<lparr>error := code e\<rparr>, es, st')
           | Inr u \<Rightarrow> (response, es, st')))"

definition stream_stop_service ::
  "camera_reply \<Rightarrow> node \<Rightarrow> response \<Rightarrow> response \<times> effect list \<times> node" where
  "stream_stop_service reply st response =
     (let result = reply_result reply;
          st' = st\<lparr>is_streaming := reply_streaming reply\<rparr>
      in (case result of
            Inl e \<Rightarrow> (response\<lparr>error := code e\<rparr>, [Camera_stop_streaming], st')
          | Inr u \<Rightarrow> (response, [Camera_stop_streaming], st')))"

text \<open>
  What it means for a handler to forward the camera's result: the error of the response
  it leaves is the code of the camera's error, or the error it was given when the call
  succeeded; and a payload field holds the camera's value, or is left as it was when the
  call failed.
\<close>

definition error_forwarded :: "'a result \<Rightarrow> 'r response_scheme \<Rightarrow> 'r response_scheme \<Rightarrow> bool" where
  "error_forwarded result before after =
     (error after = (case result of Inl e \<Rightarrow> code e | Inr v \<Rightarrow> error before))"

definition payload_copied :: "'a result \<Rightarrow> ('a \<Rightarrow> 'b) \<Rightarrow> 'b \<Rightarrow> 'b \<Rightarrow> bool" where
  "payload_copied result payload before after =
     (after = (case result of Inl e \<Rightarrow> before | Inr v \<Rightarrow> payload v))"

text \<open>A camera every call of which fails with the same code, to run the handlers on.\<close>

definition failing_camera :: "int32 \<Rightarrow> camera" where
  "failing_camera c =
     \<lparr>feature_int_get = (\<lambda>n. Inl (Error c)),
      feature_int_set = (\<lambda>n v. Inl (Error c)),
      feature_int_info_get = (\<lambda>n. Inl (Error c)),
      feature_float_get = (\<lambda>n. Inl (Error c)),
      feature_float_set = (\<lambda>n v. Inl (Error c)),
      feature_float_info_get = (\<lambda>n. Inl (Error c)),
      feature_string_get = (\<lambda>n. Inl (Error c)),
      feature_string_set = (\<lambda>n v. Inl (Error c)),
      feature_string_info_get = (\<lambda>n. Inl (Error c)),
      feature_bool_get = (\<lambda>n. Inl (Error c)),
      feature_bool_set = (\<lambda>n v. Inl (Error c)),
      feature_command_is_done = (\<lambda>n. Inl (Error c)),
      feature_command_run = (\<lambda>n. Inl (Error c)),
      feature_enum_get = (\<lambda>n. Inl (Error c)),
      feature_enum_set = (\<lambda>n v. Inl (Error c)),
      feature_enum_info_get = (\<lambda>n. Inl (Error c)),
      feature_enum_as_int_get = (\<lambda>n v. Inl (Error c)),
      feature_enum_as_string_get = (\<lambda>n v. Inl (Error c)),
      feature_raw_get = (\<lambda>n. Inl (Error c)),
      feature_raw_set = (\<lambda>n v. Inl (Error c)),
      feature_raw_info_get = (\<lambda>n. Inl (Error c)),
      feature_access_mode_get = (\<lambda>n. Inl (Error c)),
      feature_info_query_list = (\<lambda>ns. Inl (Error c)),
      features_list_get = Inl (Error c),
      settings_save = (\<lambda>f. Inl (Error c)),
      settings_load = (\<lambda>f. Inl (Error c)),
      camera_info_get = Inl (Error c)\<rparr>"

section \<open>Properties\<close>

subsection \<open>The frame callback: gap detection and requeue\<close>



lemma sint_diff_in_range:
  fixes a b :: int64
  assumes "- (2 ^ 63) \<le> sint a - sint b" and "sint a - sint b < 2 ^ 63"
  shows "sint (a - b) = sint a - sint b"
  using assms by (simp add: sint_word_diff signed_take_bit_int_eq_self)

lemma frame_callback_lastFrameId:
  "lastFrameId (snd (snd (frame_callback pub fr st))) = get_frame_id fr"
  by (simp add: frame_callback_def Let_def split: publish_reply.splits)

lemma frames_missing_append:
  "frames_missing (es @ es') = frames_missing es @ frames_missing es'"
  by (induction es rule: frames_missing.induct) simp_all

lemma frames_missing_callback:
  "frames_missing (fst (snd (frame_callback pub fr st))) =
     (if 1 <s get_frame_id fr - lastFrameId st then [get_frame_id fr - lastFrameId st - 1] else [])"
  by (simp add: frame_callback_def Let_def frames_missing_append split: publish_reply.splits)

lemma no_gap_no_warning:
  fixes a b :: int64
  assumes "sint a = sint b + 1"
  shows "\<not> 1 <s a - b"
proof -
  have "sint (a - b) = 1"
    using assms by (simp add: sint_word_diff signed_take_bit_int_eq_self)
  then show ?thesis by (simp add: word_sless_alt)
qed

lemma deliver_gap_free:
  "gap_free (lastFrameId st) (map (\<lambda>d. get_frame_id (snd d)) ds) \<Longrightarrow>
     frames_missing (fst (snd (deliver ds st))) = []"
proof (induction ds arbitrary: st)
  case Nil
  then show ?case by simp
next
  case (Cons d ds)
  obtain pub fr where d: "d = (pub, fr)" by (cases d)
  obtain r es st' where cb: "frame_callback pub fr st = (r, es, st')"
    by (cases "frame_callback pub fr st")
  have last: "lastFrameId st' = get_frame_id fr"
    using frame_callback_lastFrameId [of pub fr st] cb by simp
  have step: "sint (get_frame_id fr) = sint (lastFrameId st) + 1"
    and rest: "gap_free (get_frame_id fr) (map (\<lambda>d. get_frame_id (snd d)) ds)"
    using Cons.prems d by simp_all
  have none: "frames_missing es = []"
    using frames_missing_callback [of pub fr st] cb no_gap_no_warning [OF step] by simp
  show ?case
  proof (cases r)
    case Throws
    then show ?thesis using d cb none by simp
  next
    case (Returns u)
    have "frames_missing (fst (snd (deliver ds st'))) = []"
      using Cons.IH [of st'] rest last by simp
    then show ?thesis
      using d cb none Returns
      by (auto simp: frames_missing_append split: prod.splits)
  qed
qed

lemma jump_warning:
  fixes a b :: int64
  assumes "sint a - sint b = k" and "1 < k" and "k < 2 ^ 63"
  shows "1 <s a - b" and "sint (a - b - 1) = k - 1"
proof -
  have d: "sint (a - b) = k"
    using assms sint_diff_in_range [of a b] by simp
  then show "1 <s a - b" using assms by (simp add: word_sless_alt)
  have "sint (a - b - 1) = signed_take_bit 63 (sint (a - b) - sint (1 :: int64))"
    by (simp add: sint_word_diff)
  also have "\<dots> = k - 1"
    using d assms by (simp add: signed_take_bit_int_eq_self)
  finally show "sint (a - b - 1) = k - 1" .
qed


lemma word_of_sint_eq:
  fixes w :: int64
  assumes "sint w = k"
  shows "w = word_of_int k"
  using assms by (metis of_int_sint scast_id)

lemma frames_missing_jump:
  assumes "sint (get_frame_id fr) - sint (lastFrameId st) = k" and "1 < k" and "k < 2 ^ 63"
  shows "frames_missing (fst (snd (frame_callback pub fr st))) = [word_of_int (k - 1)]"
proof -
  have "1 <s get_frame_id fr - lastFrameId st"
    using assms jump_warning(1) [of "get_frame_id fr" "lastFrameId st" k] by simp
  moreover have "get_frame_id fr - lastFrameId st - 1 = word_of_int (k - 1)"
    using assms jump_warning(2) [of "get_frame_id fr" "lastFrameId st" k]
    by (intro word_of_sint_eq) simp
  ultimately show ?thesis
    by (simp add: frames_missing_callback)
qed

text \<open>
  Claim C4. Frames whose sequence ids go up by one from the last-seen id produce no
  missing-frame diagnostic, over a whole run of deliveries and whatever publication does;
  in any run whose ids are consecutive, only the first frame can produce one. A frame
  whose id is \<open>k > 1\<close> above the last-seen id produces exactly one diagnostic, reporting
  \<open>k - 1\<close> frames (the difference being one a signed 64-bit integer holds). The last-seen
  id is the frame's id after every call, gap or no gap.
\<close>

theorem frame_gap_detection:
  "(gap_free (lastFrameId st) (map (\<lambda>d. get_frame_id (snd d)) ds) \<longrightarrow>
      frames_missing (fst (snd (deliver ds st))) = [])
   \<and> (gap_free (get_frame_id fr) (map (\<lambda>d. get_frame_id (snd d)) ds) \<longrightarrow>
      frames_missing (fst (snd (deliver ((pub, fr) # ds) st))) =
        frames_missing (fst (snd (frame_callback pub fr st))))
   \<and> (sint (get_frame_id fr) - sint (lastFrameId st) = k \<and> 1 < k \<and> k < 2 ^ 63 \<longrightarrow>
      frames_missing (fst (snd (frame_callback pub fr st))) = [word_of_int (k - 1)])
   \<and> (sint (get_frame_id fr) = sint (lastFrameId st) + 1 \<longrightarrow>
      frames_missing (fst (snd (frame_callback pub fr st))) = [])
   \<and> lastFrameId (snd (snd (frame_callback pub fr st))) = get_frame_id fr"
proof (intro conjI impI)
  assume "gap_free (lastFrameId st) (map (\<lambda>d. get_frame_id (snd d)) ds)"
  then show "frames_missing (fst (snd (deliver ds st))) = []"
    by (rule deliver_gap_free)
next
  assume g: "gap_free (get_frame_id fr) (map (\<lambda>d. get_frame_id (snd d)) ds)"
  obtain r es st' where cb: "frame_callback pub fr st = (r, es, st')"
    by (cases "frame_callback pub fr st")
  have "lastFrameId st' = get_frame_id fr"
    using frame_callback_lastFrameId [of pub fr st] cb by simp
  then have "frames_missing (fst (snd (deliver ds st'))) = []"
    using g deliver_gap_free [of st' ds] by simp
  then show "frames_missing (fst (snd (deliver ((pub, fr) # ds) st))) =
      frames_missing (fst (snd (frame_callback pub fr st)))"
    using cb by (cases r) (auto simp: frames_missing_append split: prod.splits)
next
  assume "sint (get_frame_id fr) - sint (lastFrameId st) = k \<and> 1 < k \<and> k < 2 ^ 63"
  then show "frames_missing (fst (snd (frame_callback pub fr st))) = [word_of_int (k - 1)]"
    using frames_missing_jump [of fr st k pub] by simp
next
  assume "sint (get_frame_id fr) = sint (lastFrameId st) + 1"
  then show "frames_missing (fst (snd (frame_callback pub fr st))) = []"
    using no_gap_no_warning [of "get_frame_id fr" "lastFrameId st"]
    by (simp add: frames_missing_callback)
next
  show "lastFrameId (snd (snd (frame_callback pub fr st))) = get_frame_id fr"
    by (rule frame_callback_lastFrameId)
qed

theorem frame_gap_detection_witness:
  "frames_missing (fst (snd (deliver
      [(Publish_returns, \<lparr>get_frame_id = 5, queue = 0\<rparr>),
       (Publish_throws, \<lparr>get_frame_id = 6, queue = 0\<rparr>)]
      (initial_node\<lparr>lastFrameId := 4\<rparr>)))) = []
   \<and> frames_missing (fst (snd (frame_callback Publish_returns \<lparr>get_frame_id = 9, queue = 0\<rparr>
        (initial_node\<lparr>lastFrameId := 4\<rparr>)))) = [4]
   \<and> lastFrameId (snd (snd (frame_callback Publish_returns \<lparr>get_frame_id = 9, queue = 0\<rparr>
        (initial_node\<lparr>lastFrameId := 4\<rparr>)))) = 9
   \<and> frames_missing (fst (snd (deliver
      [(Publish_returns, \<lparr>get_frame_id = 9, queue = 0\<rparr>),
       (Publish_returns, \<lparr>get_frame_id = 10, queue = 0\<rparr>),
       (Publish_returns, \<lparr>get_frame_id = 11, queue = 0\<rparr>)]
      (initial_node\<lparr>lastFrameId := 4\<rparr>)))) = [4]
   \<and> frames_missing (fst (snd (frame_callback Publish_returns \<lparr>get_frame_id = 5, queue = 0\<rparr>
        (initial_node\<lparr>lastFrameId := 4\<rparr>)))) = []"
  using frame_gap_detection [of "initial_node\<lparr>lastFrameId := 4\<rparr>"
      "[(Publish_returns, \<lparr>get_frame_id = 5, queue = 0\<rparr>),
        (Publish_throws, \<lparr>get_frame_id = 6, queue = 0\<rparr>)]"
      "\<lparr>get_frame_id = 9, queue = 0\<rparr>" Publish_returns 5]
    frame_gap_detection [of "initial_node\<lparr>lastFrameId := 4\<rparr>"
      "[(Publish_returns, \<lparr>get_frame_id = 10, queue = 0\<rparr>),
        (Publish_returns, \<lparr>get_frame_id = 11, queue = 0\<rparr>)]"
      "\<lparr>get_frame_id = 9, queue = 0\<rparr>" Publish_returns 5]
    frame_gap_detection [of "initial_node\<lparr>lastFrameId := 4\<rparr>" "[]"
      "\<lparr>get_frame_id = 5, queue = 0\<rparr>" Publish_returns 1]
  by (simp add: initial_node_def)

text \<open>
  Claim C10. While the last-seen id still holds its initial value \<open>-1\<close>, as it does at
  process start, a first frame with id \<open>k \<ge> 1\<close> is reported as \<open>k\<close> frames missing
  (the difference is \<open>k + 1\<close>), and among the non-negative ids only 0 produces no
  diagnostic. The id \<open>2^63 - 1\<close> is left out: there the subtraction overflows.
\<close>

theorem first_frame_after_process_start:
  assumes "lastFrameId st = - 1"
  shows "(1 \<le> sint (get_frame_id fr) \<and> sint (get_frame_id fr) < 2 ^ 63 - 1 \<longrightarrow>
           frames_missing (fst (snd (frame_callback pub fr st))) = [get_frame_id fr])
       \<and> (0 \<le> sint (get_frame_id fr) \<and> sint (get_frame_id fr) < 2 ^ 63 - 1 \<longrightarrow>
           (frames_missing (fst (snd (frame_callback pub fr st))) = []) = (get_frame_id fr = 0))"
proof -
  let ?k = "get_frame_id fr"
  have m1: "sint (- 1 :: int64) = - 1" by simp
  have pos: "frames_missing (fst (snd (frame_callback pub fr st))) = [?k]"
    if "1 \<le> sint ?k" "sint ?k < 2 ^ 63 - 1"
  proof -
    have d: "sint ?k - sint (lastFrameId st) = sint ?k + 1"
      using assms m1 by simp
    have "frames_missing (fst (snd (frame_callback pub fr st))) = [word_of_int (sint ?k + 1 - 1)]"
      using d that frames_missing_jump [of fr st "sint ?k + 1" pub] by simp
    then show ?thesis by simp
  qed
  have zero: "frames_missing (fst (snd (frame_callback pub fr st))) = []" if "?k = 0"
    using that assms by (simp add: frames_missing_callback word_sless_alt)
  show ?thesis
  proof (intro conjI impI)
    assume "1 \<le> sint ?k \<and> sint ?k < 2 ^ 63 - 1"
    then show "frames_missing (fst (snd (frame_callback pub fr st))) = [?k]"
      using pos by simp
  next
    assume a: "0 \<le> sint ?k \<and> sint ?k < 2 ^ 63 - 1"
    show "(frames_missing (fst (snd (frame_callback pub fr st))) = []) = (?k = 0)"
    proof (cases "?k = 0")
      case True
      then show ?thesis using zero by simp
    next
      case False
      then have "sint ?k \<noteq> 0" by (metis of_int_sint scast_id of_int_0)
      then have "1 \<le> sint ?k" using a by simp
      then show ?thesis using pos a False by simp
    qed
  qed
qed

theorem first_frame_after_process_start_witness:
  "lastFrameId initial_node = - 1
   \<and> frames_missing (fst (snd (frame_callback Publish_returns \<lparr>get_frame_id = 5, queue = 0\<rparr>
        initial_node))) = [5]
   \<and> frames_missing (fst (snd (frame_callback Publish_returns \<lparr>get_frame_id = 0, queue = 0\<rparr>
        initial_node))) = []"
proof -
  have h: "lastFrameId initial_node = - 1"
    by (simp add: initial_node_def)
  show ?thesis
    using h first_frame_after_process_start [OF h, of "\<lparr>get_frame_id = 5, queue = 0\<rparr>" Publish_returns]
      first_frame_after_process_start [OF h, of "\<lparr>get_frame_id = 0, queue = 0\<rparr>" Publish_returns]
    by simp
qed

text \<open>
  Claim C3, as amended. When publication returns, the callback requeues the frame's
  buffer exactly once and returns normally whatever the requeue answers; a requeue
  failure shows as one logged line carrying the code and nothing else.
\<close>

theorem frame_requeued_once_when_publish_returns:
  "requeues fr (fst (snd (frame_callback Publish_returns fr st))) = 1
   \<and> fst (frame_callback Publish_returns fr st) = Returns ()
   \<and> (Log_error_requeue_failed c \<in> set (fst (snd (frame_callback Publish_returns fr st))))
       = (c = queue fr \<and> queue fr \<noteq> VmbErrorSuccess)"
  by (auto simp: frame_callback_def Let_def requeues_def)

theorem frame_requeued_once_when_publish_returns_witness:
  "requeues \<lparr>get_frame_id = 3, queue = 7\<rparr>
      (fst (snd (frame_callback Publish_returns \<lparr>get_frame_id = 3, queue = 7\<rparr> initial_node))) = 1
   \<and> fst (frame_callback Publish_returns \<lparr>get_frame_id = 3, queue = 7\<rparr> initial_node) = Returns ()
   \<and> Log_error_requeue_failed 7
        \<in> set (fst (snd (frame_callback Publish_returns \<lparr>get_frame_id = 3, queue = 7\<rparr> initial_node)))"
  using frame_requeued_once_when_publish_returns
    [of "\<lparr>get_frame_id = 3, queue = 7\<rparr>" initial_node 7]
  by (simp add: VmbErrorSuccess_def)

text \<open>
  Claim C3 as stated fails when publication throws: the exception leaves the callback
  before the requeue, so the buffer of that frame is not handed back.
\<close>

theorem publish_throws_skips_requeue:
  "requeues \<lparr>get_frame_id = 0, queue = 0\<rparr>
      (fst (snd (frame_callback Publish_throws \<lparr>get_frame_id = 0, queue = 0\<rparr> initial_node))) = 0
   \<and> fst (frame_callback Publish_throws \<lparr>get_frame_id = 0, queue = 0\<rparr> initial_node) = Throws"
  by (simp add: frame_callback_def Let_def requeues_def initial_node_def word_sless_alt)

subsection \<open>The stream lifecycle\<close>



lemma start_streaming_requests:
  "starts (fst (snd (start_streaming reply st))) = 1"
  "stops (fst (snd (start_streaming reply st))) = 0"
  "hd (fst (snd (start_streaming reply st))) = Camera_start_streaming (buffer_count st)"
  by (simp_all add: start_streaming_def Let_def starts_def stops_def)

lemma stop_streaming_requests:
  "starts (fst (stop_streaming reply st)) = 0"
  "stops (fst (stop_streaming reply st)) = 1"
  by (simp_all add: stop_streaming_def starts_def stops_def)

lemma graph_notify_iteration_settled:
  "is_streaming st = (0 < getNumSubscribers w) \<Longrightarrow> graph_notify_iteration w st = ([], st)"
  by (auto simp: graph_notify_iteration_def)

lemma graph_notify_loop_settled:
  "is_streaming st = (0 < n) \<Longrightarrow> \<forall>w \<in> set ws. getNumSubscribers w = n \<Longrightarrow>
     graph_notify_loop ws st = ([], st)"
proof (induction ws)
  case Nil
  then show ?case by simp
next
  case (Cons w ws)
  then have "graph_notify_iteration w st = ([], st)"
    by (intro graph_notify_iteration_settled) simp
  then show ?case using Cons by simp
qed

lemma graph_notify_loop_one_start:
  assumes "\<not> stop_threads st" and "\<not> is_streaming st" and "0 < n" and "ws \<noteq> []"
    and "\<forall>w \<in> set ws. check_and_clear w \<and> getNumSubscribers w = n \<and> reply_streaming (start_reply w)"
  shows "starts (fst (graph_notify_loop ws st)) = 1"
    and "stops (fst (graph_notify_loop ws st)) = 0"
proof -
  obtain w ws' where ws: "ws = w # ws'"
    using assms(4) by (cases ws) auto
  let ?st' = "st\<lparr>is_streaming := True\<rparr>"
  have it: "graph_notify_iteration w st =
      ([Camera_start_streaming (buffer_count st), Log_info_stream_started (buffer_count st)], ?st')"
    using assms ws by (simp add: graph_notify_iteration_def start_streaming_def Let_def)
  have "graph_notify_loop ws' ?st' = ([], ?st')"
    using assms ws by (intro graph_notify_loop_settled [of _ n]) simp_all
  then have "fst (graph_notify_loop ws st) =
      [Camera_start_streaming (buffer_count st), Log_info_stream_started (buffer_count st)]"
    using assms(1) ws it by simp
  then show "starts (fst (graph_notify_loop ws st)) = 1"
    and "stops (fst (graph_notify_loop ws st)) = 0"
    by (simp_all add: starts_def stops_def)
qed

lemma graph_notify_loop_one_stop:
  assumes "\<not> stop_threads st" and "is_streaming st" and "ws \<noteq> []"
    and "\<forall>w \<in> set ws. check_and_clear w \<and> getNumSubscribers w = 0 \<and> \<not> reply_streaming (stop_reply w)"
  shows "stops (fst (graph_notify_loop ws st)) = 1"
    and "starts (fst (graph_notify_loop ws st)) = 0"
proof -
  obtain w ws' where ws: "ws = w # ws'"
    using assms(3) by (cases ws) auto
  let ?st' = "st\<lparr>is_streaming := False\<rparr>"
  have it: "graph_notify_iteration w st = ([Camera_stop_streaming, Log_info_stream_stopped], ?st')"
    using assms ws by (simp add: graph_notify_iteration_def stop_streaming_def)
  have "graph_notify_loop ws' ?st' = ([], ?st')"
    using assms ws by (intro graph_notify_loop_settled [of _ 0]) simp_all
  then have "fst (graph_notify_loop ws st) = [Camera_stop_streaming, Log_info_stream_stopped]"
    using assms(1) ws it by simp
  then show "stops (fst (graph_notify_loop ws st)) = 1"
    and "starts (fst (graph_notify_loop ws st)) = 0"
    by (simp_all add: starts_def stops_def)
qed

text \<open>
  Claim C1, as amended. On a pass of the graph-notify loop that saw a graph change: with
  subscribers and the camera not streaming, exactly one start is requested (with the
  configured buffer count) and no stop; with no subscriber and the camera streaming,
  exactly one stop and no start; in every other case nothing is requested and the node
  is unchanged. Repeated identical observations request nothing further once the
  camera's streaming state agrees with the subscriber count: over a whole run of passes
  that all see the same positive count, a camera that takes up the start is asked to
  start exactly once, and over a run that sees no subscriber, a camera that takes up the
  stop is asked to stop exactly once.
\<close>

theorem graph_monitor_requests:
  assumes "check_and_clear w"
  shows "(0 < getNumSubscribers w \<and> \<not> is_streaming st \<longrightarrow>
            starts (fst (graph_notify_iteration w st)) = 1
          \<and> stops (fst (graph_notify_iteration w st)) = 0
          \<and> hd (fst (graph_notify_iteration w st)) = Camera_start_streaming (buffer_count st))
       \<and> (getNumSubscribers w = 0 \<and> is_streaming st \<longrightarrow>
            stops (fst (graph_notify_iteration w st)) = 1
          \<and> starts (fst (graph_notify_iteration w st)) = 0)
       \<and> (is_streaming st = (0 < getNumSubscribers w) \<longrightarrow>
            graph_notify_iteration w st = ([], st))
       \<and> (is_streaming (snd (graph_notify_iteration w st)) = (0 < getNumSubscribers w)
            \<and> (\<forall>w' \<in> set ws. getNumSubscribers w' = getNumSubscribers w) \<longrightarrow>
            graph_notify_loop ws (snd (graph_notify_iteration w st))
              = ([], snd (graph_notify_iteration w st)))
       \<and> (\<not> stop_threads st \<and> \<not> is_streaming st \<and> 0 < n \<and> run \<noteq> []
            \<and> (\<forall>w' \<in> set run. check_and_clear w' \<and> getNumSubscribers w' = n
                  \<and> reply_streaming (start_reply w')) \<longrightarrow>
            starts (fst (graph_notify_loop run st)) = 1
          \<and> stops (fst (graph_notify_loop run st)) = 0)
       \<and> (\<not> stop_threads st \<and> is_streaming st \<and> run \<noteq> []
            \<and> (\<forall>w' \<in> set run. check_and_clear w' \<and> getNumSubscribers w' = 0
                  \<and> \<not> reply_streaming (stop_reply w')) \<longrightarrow>
            stops (fst (graph_notify_loop run st)) = 1
          \<and> starts (fst (graph_notify_loop run st)) = 0)"
proof (intro conjI impI)
  assume a: "0 < getNumSubscribers w \<and> \<not> is_streaming st"
  then have eq: "fst (graph_notify_iteration w st) = fst (snd (start_streaming (start_reply w) st))"
    using assms by (simp add: graph_notify_iteration_def split: prod.splits)
  show "starts (fst (graph_notify_iteration w st)) = 1"
    and "stops (fst (graph_notify_iteration w st)) = 0"
    and "hd (fst (graph_notify_iteration w st)) = Camera_start_streaming (buffer_count st)"
    unfolding eq by (rule start_streaming_requests)+
next
  assume a: "getNumSubscribers w = 0 \<and> is_streaming st"
  then have eq: "graph_notify_iteration w st = stop_streaming (stop_reply w) st"
    using assms by (simp add: graph_notify_iteration_def)
  show "stops (fst (graph_notify_iteration w st)) = 1"
    and "starts (fst (graph_notify_iteration w st)) = 0"
    unfolding eq by (rule stop_streaming_requests)+
next
  assume "is_streaming st = (0 < getNumSubscribers w)"
  then show "graph_notify_iteration w st = ([], st)"
    by (rule graph_notify_iteration_settled)
next
  assume "is_streaming (snd (graph_notify_iteration w st)) = (0 < getNumSubscribers w)
            \<and> (\<forall>w' \<in> set ws. getNumSubscribers w' = getNumSubscribers w)"
  then show "graph_notify_loop ws (snd (graph_notify_iteration w st))
              = ([], snd (graph_notify_iteration w st))"
    using graph_notify_loop_settled [of "snd (graph_notify_iteration w st)" "getNumSubscribers w" ws]
    by simp
next
  assume a: "\<not> stop_threads st \<and> \<not> is_streaming st \<and> 0 < n \<and> run \<noteq> []
            \<and> (\<forall>w' \<in> set run. check_and_clear w' \<and> getNumSubscribers w' = n
                  \<and> reply_streaming (start_reply w'))"
  show "starts (fst (graph_notify_loop run st)) = 1"
    using a by (intro graph_notify_loop_one_start [of st n run]) simp_all
  show "stops (fst (graph_notify_loop run st)) = 0"
    using a by (intro graph_notify_loop_one_start [of st n run]) simp_all
next
  assume a: "\<not> stop_threads st \<and> is_streaming st \<and> run \<noteq> []
            \<and> (\<forall>w' \<in> set run. check_and_clear w' \<and> getNumSubscribers w' = 0
                  \<and> \<not> reply_streaming (stop_reply w'))"
  show "stops (fst (graph_notify_loop run st)) = 1"
    using a by (intro graph_notify_loop_one_stop [of st run]) simp_all
  show "starts (fst (graph_notify_loop run st)) = 0"
    using a by (intro graph_notify_loop_one_stop [of st run]) simp_all
qed

theorem graph_monitor_requests_witness:
  "starts (fst (graph_notify_iteration
      \<lparr>check_and_clear = True, getNumSubscribers = 1,
        start_reply = \<lparr>reply_result = Inr (), reply_streaming = True\<rparr>,
        stop_reply = \<lparr>reply_result = Inr (), reply_streaming = False\<rparr>\<rparr> initial_node)) = 1
   \<and> stops (fst (graph_notify_iteration
      \<lparr>check_and_clear = True, getNumSubscribers = 1,
        start_reply = \<lparr>reply_result = Inr (), reply_streaming = True\<rparr>,
        stop_reply = \<lparr>reply_result = Inr (), reply_streaming = False\<rparr>\<rparr> initial_node)) = 0
   \<and> graph_notify_loop
      [\<lparr>check_and_clear = True, getNumSubscribers = 1,
        start_reply = \<lparr>reply_result = Inr (), reply_streaming = True\<rparr>,
        stop_reply = \<lparr>reply_result = Inr (), reply_streaming = False\<rparr>\<rparr>,
       \<lparr>check_and_clear = True, getNumSubscribers = 1,
        start_reply = \<lparr>reply_result = Inr (), reply_streaming = True\<rparr>,
        stop_reply = \<lparr>reply_result = Inr (), reply_streaming = False\<rparr>\<rparr>]
      (snd (graph_notify_iteration
         \<lparr>check_and_clear = True, getNumSubscribers = 1,
        start_reply = \<lparr>reply_result = Inr (), reply_streaming = True\<rparr>,
        stop_reply = \<lparr>reply_result = Inr (), reply_streaming = False\<rparr>\<rparr> initial_node))
     = ([], snd (graph_notify_iteration
         \<lparr>check_and_clear = True, getNumSubscribers = 1,
        start_reply = \<lparr>reply_result = Inr (), reply_streaming = True\<rparr>,
        stop_reply = \<lparr>reply_result = Inr (), reply_streaming = False\<rparr>\<rparr> initial_node))
   \<and> stops (fst (graph_notify_iteration
      \<lparr>check_and_clear = True, getNumSubscribers = 0,
        start_reply = \<lparr>reply_result = Inr (), reply_streaming = True\<rparr>,
        stop_reply = \<lparr>reply_result = Inr (), reply_streaming = False\<rparr>\<rparr> (initial_node\<lparr>is_streaming := True\<rparr>))) = 1
   \<and> starts (fst (graph_notify_iteration
      \<lparr>check_and_clear = True, getNumSubscribers = 0,
        start_reply = \<lparr>reply_result = Inr (), reply_streaming = True\<rparr>,
        stop_reply = \<lparr>reply_result = Inr (), reply_streaming = False\<rparr>\<rparr> (initial_node\<lparr>is_streaming := True\<rparr>))) = 0
   \<and> graph_notify_iteration
      \<lparr>check_and_clear = True, getNumSubscribers = 0,
        start_reply = \<lparr>reply_result = Inr (), reply_streaming = True\<rparr>,
        stop_reply = \<lparr>reply_result = Inr (), reply_streaming = False\<rparr>\<rparr> initial_node = ([], initial_node)
   \<and> starts (fst (graph_notify_loop
      [\<lparr>check_and_clear = True, getNumSubscribers = 1,
        start_reply = \<lparr>reply_result = Inr (), reply_streaming = True\<rparr>,
        stop_reply = \<lparr>reply_result = Inr (), reply_streaming = False\<rparr>\<rparr>,
       \<lparr>check_and_clear = True, getNumSubscribers = 1,
        start_reply = \<lparr>reply_result = Inr (), reply_streaming = True\<rparr>,
        stop_reply = \<lparr>reply_result = Inr (), reply_streaming = False\<rparr>\<rparr>,
       \<lparr>check_and_clear = True, getNumSubscribers = 1,
        start_reply = \<lparr>reply_result = Inr (), reply_streaming = True\<rparr>,
        stop_reply = \<lparr>reply_result = Inr (), reply_streaming = False\<rparr>\<rparr>] initial_node)) = 1
   \<and> stops (fst (graph_notify_loop
      [\<lparr>check_and_clear = True, getNumSubscribers = 0,
        start_reply = \<lparr>reply_result = Inr (), reply_streaming = True\<rparr>,
        stop_reply = \<lparr>reply_result = Inr (), reply_streaming = False\<rparr>\<rparr>,
       \<lparr>check_and_clear = True, getNumSubscribers = 0,
        start_reply = \<lparr>reply_result = Inr (), reply_streaming = True\<rparr>,
        stop_reply = \<lparr>reply_result = Inr (), reply_streaming = False\<rparr>\<rparr>] (initial_node\<lparr>is_streaming := True\<rparr>))) = 1"
  using graph_monitor_requests
      [where w = "\<lparr>check_and_clear = True, getNumSubscribers = 1,
        start_reply = \<lparr>reply_result = Inr (), reply_streaming = True\<rparr>,
        stop_reply = \<lparr>reply_result = Inr (), reply_streaming = False\<rparr>\<rparr>" and st = initial_node and n = 1
        and ws = "[\<lparr>check_and_clear = True, getNumSubscribers = 1,
        start_reply = \<lparr>reply_result = Inr (), reply_streaming = True\<rparr>,
        stop_reply = \<lparr>reply_result = Inr (), reply_streaming = False\<rparr>\<rparr>,
          \<lparr>check_and_clear = True, getNumSubscribers = 1,
        start_reply = \<lparr>reply_result = Inr (), reply_streaming = True\<rparr>,
        stop_reply = \<lparr>reply_result = Inr (), reply_streaming = False\<rparr>\<rparr>]"
        and run = "[\<lparr>check_and_clear = True, getNumSubscribers = 1,
        start_reply = \<lparr>reply_result = Inr (), reply_streaming = True\<rparr>,
        stop_reply = \<lparr>reply_result = Inr (), reply_streaming = False\<rparr>\<rparr>,
          \<lparr>check_and_clear = True, getNumSubscribers = 1,
        start_reply = \<lparr>reply_result = Inr (), reply_streaming = True\<rparr>,
        stop_reply = \<lparr>reply_result = Inr (), reply_streaming = False\<rparr>\<rparr>,
          \<lparr>check_and_clear = True, getNumSubscribers = 1,
        start_reply = \<lparr>reply_result = Inr (), reply_streaming = True\<rparr>,
        stop_reply = \<lparr>reply_result = Inr (), reply_streaming = False\<rparr>\<rparr>]"]
    graph_monitor_requests
      [where w = "\<lparr>check_and_clear = True, getNumSubscribers = 0,
        start_reply = \<lparr>reply_result = Inr (), reply_streaming = True\<rparr>,
        stop_reply = \<lparr>reply_result = Inr (), reply_streaming = False\<rparr>\<rparr>" and st = "initial_node\<lparr>is_streaming := True\<rparr>" and n = 0
        and ws = "[]"
        and run = "[\<lparr>check_and_clear = True, getNumSubscribers = 0,
        start_reply = \<lparr>reply_result = Inr (), reply_streaming = True\<rparr>,
        stop_reply = \<lparr>reply_result = Inr (), reply_streaming = False\<rparr>\<rparr>,
          \<lparr>check_and_clear = True, getNumSubscribers = 0,
        start_reply = \<lparr>reply_result = Inr (), reply_streaming = True\<rparr>,
        stop_reply = \<lparr>reply_result = Inr (), reply_streaming = False\<rparr>\<rparr>]"]
    graph_monitor_requests
      [where w = "\<lparr>check_and_clear = True, getNumSubscribers = 0,
        start_reply = \<lparr>reply_result = Inr (), reply_streaming = True\<rparr>,
        stop_reply = \<lparr>reply_result = Inr (), reply_streaming = False\<rparr>\<rparr>" and st = initial_node and ws = "[]" and n = 0 and run = "[]"]
  by (simp add: initial_node_def graph_notify_iteration_def start_streaming_def Let_def)

text \<open>
  Claim C1 as stated fails in its last clause: when the camera refuses the start (here
  with the code \<open>-4\<close>) it is still not streaming after the pass, the node is as it was,
  and each of three passes that observe the same single subscriber requests a start.
\<close>

theorem graph_monitor_retries_failed_start:
  "starts (fst (graph_notify_loop
      [\<lparr>check_and_clear = True, getNumSubscribers = 1,
        start_reply = \<lparr>reply_result = Inl (Error (- 4)), reply_streaming = False\<rparr>,
        stop_reply = \<lparr>reply_result = Inr (), reply_streaming = False\<rparr>\<rparr>,
       \<lparr>check_and_clear = True, getNumSubscribers = 1,
        start_reply = \<lparr>reply_result = Inl (Error (- 4)), reply_streaming = False\<rparr>,
        stop_reply = \<lparr>reply_result = Inr (), reply_streaming = False\<rparr>\<rparr>,
       \<lparr>check_and_clear = True, getNumSubscribers = 1,
        start_reply = \<lparr>reply_result = Inl (Error (- 4)), reply_streaming = False\<rparr>,
        stop_reply = \<lparr>reply_result = Inr (), reply_streaming = False\<rparr>\<rparr>]
      initial_node)) = 3
   \<and> snd (graph_notify_iteration
      \<lparr>check_and_clear = True, getNumSubscribers = 1,
        start_reply = \<lparr>reply_result = Inl (Error (- 4)), reply_streaming = False\<rparr>,
        stop_reply = \<lparr>reply_result = Inr (), reply_streaming = False\<rparr>\<rparr> initial_node) = initial_node"
  by (simp add: graph_notify_iteration_def start_streaming_def Let_def starts_def initial_node_def)

text \<open>
  Claim C5, as amended. The last-seen id is one value for the whole process: it starts
  at \<open>-1\<close>, and starting or stopping the stream (directly or from the graph-notify
  thread) leaves it as it is, so the first frame of a session is compared with whatever
  id was seen last, in this session or an earlier one.
\<close>

theorem lastFrameId_outlives_sessions:
  "lastFrameId (snd (snd (start_streaming reply st))) = lastFrameId st
   \<and> lastFrameId (snd (stop_streaming reply st)) = lastFrameId st
   \<and> lastFrameId (snd (graph_notify_iteration w st)) = lastFrameId st
   \<and> lastFrameId (snd (snd (stream_start_service reply st response))) = lastFrameId st
   \<and> lastFrameId (snd (snd (stream_stop_service reply st response))) = lastFrameId st
   \<and> lastFrameId initial_node = - 1
   \<and> frames_missing (fst (snd (frame_callback pub fr (snd (snd (start_streaming reply st))))))
       = frames_missing (fst (snd (frame_callback pub fr st)))"
  by (simp add: start_streaming_def stop_streaming_def graph_notify_iteration_def Let_def
      stream_start_service_def stream_stop_service_def initial_node_def frames_missing_callback
      split: sum.splits)


theorem lastFrameId_outlives_sessions_witness:
  "lastFrameId (snd (snd (start_streaming \<lparr>reply_result = Inr (), reply_streaming = True\<rparr>
      (initial_node\<lparr>lastFrameId := 41\<rparr>)))) = 41"
  using lastFrameId_outlives_sessions
    [of "\<lparr>reply_result = Inr (), reply_streaming = True\<rparr>" "initial_node\<lparr>lastFrameId := 41\<rparr>"]
  by simp

text \<open>
  Claim C5 as stated fails: after a session that saw the ids 0, 1 and 2, a stop and a
  new start, the last-seen id is still 2, not \<open>-1\<close>, and a first frame with id 5 is
  reported as 2 frames missing, where the same frame in the first session of the
  process is reported as 5.
\<close>

theorem lastFrameId_not_reset_on_restart:
  "(let ok = \<lparr>reply_result = Inr (), reply_streaming = True\<rparr>;
        off = \<lparr>reply_result = Inr (), reply_streaming = False\<rparr>;
        s1 = snd (snd (start_streaming ok initial_node));
        s2 = snd (snd (deliver [(Publish_returns, \<lparr>get_frame_id = 0, queue = 0\<rparr>),
                                (Publish_returns, \<lparr>get_frame_id = 1, queue = 0\<rparr>),
                                (Publish_returns, \<lparr>get_frame_id = 2, queue = 0\<rparr>)] s1));
        s3 = snd (stop_streaming off s2);
        s4 = snd (snd (start_streaming ok s3))
    in lastFrameId s4 = 2 \<and> lastFrameId s4 \<noteq> - 1
     \<and> frames_missing (fst (snd (frame_callback Publish_returns \<lparr>get_frame_id = 5, queue = 0\<rparr> s4))) = [2]
     \<and> frames_missing (fst (snd (frame_callback Publish_returns \<lparr>get_frame_id = 5, queue = 0\<rparr> s1))) = [5])"
  by (simp add: Let_def start_streaming_def stop_streaming_def frame_callback_def initial_node_def
      VmbErrorSuccess_def word_sless_alt)

lemma callback_refuses:
  "is_streaming st \<Longrightarrow> \<exists>p \<in> set params. get_name p = parameter_buffer_count \<Longrightarrow>
     on_set_parameters_callback st params =
       \<lparr>successful = False, reason = ''Buffer count change not supported while streaming''\<rparr>"
  by (induction params) auto

lemma callback_accepts_idle:
  "\<not> is_streaming st \<Longrightarrow> on_set_parameters_callback st params = \<lparr>successful = True, reason = []\<rparr>"
  by (induction params) auto

lemma callback_accepts_other:
  "\<forall>p \<in> set params. get_name p \<noteq> parameter_buffer_count \<Longrightarrow>
     on_set_parameters_callback st params = \<lparr>successful = True, reason = []\<rparr>"
  by (induction params) auto

text \<open>
  Claim C7. While the camera streams, a request that names the buffer count is refused
  with the reason "Buffer count change not supported while streaming", and nothing is
  stored. While it does not stream, the callback accepts every request; a value within
  the declared range 3..1000 is stored, and the next start passes it to the camera, as
  a start always passes the value the parameter has at that moment.
\<close>

theorem buffer_count_change:
  "(is_streaming st \<and> (\<exists>p \<in> set params. get_name p = parameter_buffer_count) \<longrightarrow>
      on_set_parameters_callback st params =
        \<lparr>successful = False, reason = ''Buffer count change not supported while streaming''\<rparr>)
   \<and> (\<not> is_streaming st \<longrightarrow> successful (on_set_parameters_callback st params))
   \<and> (is_streaming st \<longrightarrow>
        set_buffer_count v st =
          (Refused_by_callback
             \<lparr>successful = False, reason = ''Buffer count change not supported while streaming''\<rparr>,
           st))
   \<and> (\<not> is_streaming st \<and> 3 \<le> v \<and> v \<le> 1000 \<longrightarrow>
        fst (set_buffer_count v st) = Stored
      \<and> buffer_count (snd (set_buffer_count v st)) = v
      \<and> hd (fst (snd (start_streaming reply (snd (set_buffer_count v st)))))
          = Camera_start_streaming v)
   \<and> hd (fst (snd (start_streaming reply st))) = Camera_start_streaming (buffer_count st)"
proof (intro conjI impI)
  assume "is_streaming st \<and> (\<exists>p \<in> set params. get_name p = parameter_buffer_count)"
  then show "on_set_parameters_callback st params =
        \<lparr>successful = False, reason = ''Buffer count change not supported while streaming''\<rparr>"
    using callback_refuses by blast
next
  assume "\<not> is_streaming st"
  then show "successful (on_set_parameters_callback st params)"
    by (simp add: callback_accepts_idle)
next
  assume "is_streaming st"
  then show "set_buffer_count v st =
          (Refused_by_callback
             \<lparr>successful = False, reason = ''Buffer count change not supported while streaming''\<rparr>,
           st)"
    by (simp add: set_buffer_count_def)
next
  assume a: "\<not> is_streaming st \<and> 3 \<le> v \<and> v \<le> 1000"
  then have s: "set_buffer_count v st = (Stored, st\<lparr>buffer_count := v\<rparr>)"
    by (simp add: set_buffer_count_def complies_def bufferCountRange_def)
  show "fst (set_buffer_count v st) = Stored"
    and "buffer_count (snd (set_buffer_count v st)) = v"
    and "hd (fst (snd (start_streaming reply (snd (set_buffer_count v st)))))
          = Camera_start_streaming v"
    by (simp_all add: s start_streaming_def Let_def)
next
  show "hd (fst (snd (start_streaming reply st))) = Camera_start_streaming (buffer_count st)"
    by (simp add: start_streaming_def Let_def)
qed

theorem buffer_count_change_witness:
  "on_set_parameters_callback (initial_node\<lparr>is_streaming := True\<rparr>)
      [\<lparr>get_name = ''buffer_count'', get_value = Integer_value 12\<rparr>]
     = \<lparr>successful = False, reason = ''Buffer count change not supported while streaming''\<rparr>
   \<and> set_buffer_count 12 (initial_node\<lparr>is_streaming := True\<rparr>)
     = (Refused_by_callback
          \<lparr>successful = False, reason = ''Buffer count change not supported while streaming''\<rparr>,
        initial_node\<lparr>is_streaming := True\<rparr>)
   \<and> successful (on_set_parameters_callback initial_node
        [\<lparr>get_name = ''buffer_count'', get_value = Integer_value 12\<rparr>])
   \<and> fst (set_buffer_count 12 initial_node) = Stored
   \<and> hd (fst (snd (start_streaming \<lparr>reply_result = Inr (), reply_streaming = True\<rparr>
        (snd (set_buffer_count 12 initial_node))))) = Camera_start_streaming 12"
  using buffer_count_change
      [of "initial_node\<lparr>is_streaming := True\<rparr>"
          "[\<lparr>get_name = ''buffer_count'', get_value = Integer_value 12\<rparr>]" 12]
    buffer_count_change
      [of initial_node "[\<lparr>get_name = ''buffer_count'', get_value = Integer_value 12\<rparr>]" 12
          "\<lparr>reply_result = Inr (), reply_streaming = True\<rparr>"]
  by (simp add: initial_node_def parameter_buffer_count_def)

lemma destructor_effects:
  "fst (destructor reply st) =
     [Store_stop_threads] @ (if graph_notify_thread st then [Join_graph_notify_thread] else [])
       @ (if camera_open st \<and> is_streaming st then [Camera_stop_streaming] else [])
       @ [Camera_reset]"
  by (simp add: destructor_def Let_def)

text \<open>
  Claim C9. The destructor raises the stop flag first, joins the graph-notify thread,
  stops the camera if it is streaming, and releases the handle last: for a node that is
  fully set up and streaming the effects are exactly these four in this order, and in
  every case a stop of the stream comes before the release, never after it.
\<close>

theorem teardown_order:
  "(graph_notify_thread st \<and> camera_open st \<and> is_streaming st \<longrightarrow>
      fst (destructor reply st) =
        [Store_stop_threads, Join_graph_notify_thread, Camera_stop_streaming, Camera_reset])
   \<and> (graph_notify_thread st \<and> camera_open st \<and> \<not> is_streaming st \<longrightarrow>
      fst (destructor reply st) = [Store_stop_threads, Join_graph_notify_thread, Camera_reset])
   \<and> hd (fst (destructor reply st)) = Store_stop_threads
   \<and> last (fst (destructor reply st)) = Camera_reset
   \<and> count_list (fst (destructor reply st)) Camera_reset = 1
   \<and> (graph_notify_thread st \<longrightarrow>
        precedes Store_stop_threads Join_graph_notify_thread (fst (destructor reply st))
      \<and> precedes Join_graph_notify_thread Camera_reset (fst (destructor reply st)))
   \<and> (camera_open st \<and> is_streaming st \<longrightarrow>
        precedes Store_stop_threads Camera_stop_streaming (fst (destructor reply st))
      \<and> precedes Camera_stop_streaming Camera_reset (fst (destructor reply st))
      \<and> (graph_notify_thread st \<longrightarrow>
           precedes Join_graph_notify_thread Camera_stop_streaming (fst (destructor reply st))))
   \<and> \<not> precedes Camera_reset Camera_stop_streaming (fst (destructor reply st))
   \<and> stop_threads (snd (destructor reply st))
   \<and> \<not> camera_open (snd (destructor reply st))"
  unfolding destructor_effects
  by (simp add: precedes_def destructor_def Let_def)

theorem teardown_order_witness:
  "fst (destructor \<lparr>reply_result = Inr (), reply_streaming = False\<rparr>
        (initial_node\<lparr>is_streaming := True\<rparr>)) =
     [Store_stop_threads, Join_graph_notify_thread, Camera_stop_streaming, Camera_reset]
   \<and> precedes Camera_stop_streaming Camera_reset
        (fst (destructor \<lparr>reply_result = Inr (), reply_streaming = False\<rparr>
           (initial_node\<lparr>is_streaming := True\<rparr>)))
   \<and> fst (destructor \<lparr>reply_result = Inr (), reply_streaming = False\<rparr> initial_node) =
     [Store_stop_threads, Join_graph_notify_thread, Camera_reset]"
  using teardown_order [of "initial_node\<lparr>is_streaming := True\<rparr>"
      "\<lparr>reply_result = Inr (), reply_streaming = False\<rparr>"]
    teardown_order [of initial_node "\<lparr>reply_result = Inr (), reply_streaming = False\<rparr>"]
  by (simp add: initial_node_def precedes_def)

subsection \<open>The service handlers forward the camera's result\<close>

lemma feature_int_get_service_forwards:
  "error_forwarded (feature_int_get camera (feature_name request)) response (feature_int_get_service camera request response)
   \<and> payload_copied (feature_int_get camera (feature_name request)) (\<lambda>v. v)
       (response_value response) (response_value (feature_int_get_service camera request response))"
  by (simp add: feature_int_get_service_def error_forwarded_def payload_copied_def split: sum.splits)

lemma feature_int_set_service_forwards:
  "error_forwarded (feature_int_set camera (feature_name request) (request_value request)) response (feature_int_set_service camera request response)"
  by (simp add: feature_int_set_service_def error_forwarded_def payload_copied_def split: sum.splits)

lemma feature_int_info_get_service_forwards:
  "error_forwarded (feature_int_info_get camera (feature_name request)) response (feature_int_info_get_service camera request response)
   \<and> payload_copied (feature_int_info_get camera (feature_name request)) (\<lambda>v. fst v)
       (response_min response) (response_min (feature_int_info_get_service camera request response))
   \<and> payload_copied (feature_int_info_get camera (feature_name request)) (\<lambda>v. fst (snd v))
       (response_max response) (response_max (feature_int_info_get_service camera request response))
   \<and> payload_copied (feature_int_info_get camera (feature_name request)) (\<lambda>v. snd (snd v))
       (inc response) (inc (feature_int_info_get_service camera request response))"
  by (simp add: feature_int_info_get_service_def error_forwarded_def payload_copied_def split: sum.splits)

lemma feature_float_get_service_forwards:
  "error_forwarded (feature_float_get camera (feature_name request)) response (feature_float_get_service camera request response)
   \<and> payload_copied (feature_float_get camera (feature_name request)) (\<lambda>v. v)
       (response_value response) (response_value (feature_float_get_service camera request response))"
  by (simp add: feature_float_get_service_def error_forwarded_def payload_copied_def split: sum.splits)

lemma feature_float_set_service_forwards:
  "error_forwarded (feature_float_set camera (feature_name request) (request_value request)) response (feature_float_set_service camera request response)"
  by (simp add: feature_float_set_service_def error_forwarded_def payload_copied_def split: sum.splits)

lemma feature_float_info_get_service_forwards:
  "error_forwarded (feature_float_info_get camera (feature_name request)) response (feature_float_info_get_service camera request response)
   \<and> payload_copied (feature_float_info_get camera (feature_name request)) (\<lambda>v. info_min v)
       (response_min response) (response_min (feature_float_info_get_service camera request response))
   \<and> payload_copied (feature_float_info_get camera (feature_name request)) (\<lambda>v. info_max v)
       (response_max response) (response_max (feature_float_info_get_service camera request response))
   \<and> payload_copied (feature_float_info_get camera (feature_name request)) (\<lambda>v. info_inc v)
       (inc response) (inc (feature_float_info_get_service camera request response))
   \<and> payload_copied (feature_float_info_get camera (feature_name request)) (\<lambda>v. info_inc_available v)
       (inc_available response) (inc_available (feature_float_info_get_service camera request response))"
  by (simp add: feature_float_info_get_service_def error_forwarded_def payload_copied_def split: sum.splits)

lemma feature_string_get_service_forwards:
  "error_forwarded (feature_string_get camera (feature_name request)) response (feature_string_get_service camera request response)
   \<and> payload_copied (feature_string_get camera (feature_name request)) (\<lambda>v. v)
       (response_value response) (response_value (feature_string_get_service camera request response))"
  by (simp add: feature_string_get_service_def error_forwarded_def payload_copied_def split: sum.splits)

lemma feature_string_set_service_forwards:
  "error_forwarded (feature_string_set camera (feature_name request) (request_value request)) response (feature_string_set_service camera request response)"
  by (simp add: feature_string_set_service_def error_forwarded_def payload_copied_def split: sum.splits)

lemma feature_string_info_get_service_forwards:
  "error_forwarded (feature_string_info_get camera (feature_name request)) response (feature_string_info_get_service camera request response)
   \<and> payload_copied (feature_string_info_get camera (feature_name request)) (\<lambda>v. v)
       (max_length response) (max_length (feature_string_info_get_service camera request response))"
  by (simp add: feature_string_info_get_service_def error_forwarded_def payload_copied_def split: sum.splits)

lemma feature_bool_get_service_forwards:
  "error_forwarded (feature_bool_get camera (feature_name request)) response (feature_bool_get_service camera request response)
   \<and> payload_copied (feature_bool_get camera (feature_name request)) (\<lambda>v. v)
       (response_value response) (response_value (feature_bool_get_service camera request response))"
  by (simp add: feature_bool_get_service_def error_forwarded_def payload_copied_def split: sum.splits)

lemma feature_bool_set_service_forwards:
  "error_forwarded (feature_bool_set camera (feature_name request) (request_value request)) response (feature_bool_set_service camera request response)"
  by (simp add: feature_bool_set_service_def error_forwarded_def payload_copied_def split: sum.splits)

lemma feature_command_is_done_service_forwards:
  "error_forwarded (feature_command_is_done camera (feature_name request)) response (feature_command_is_done_service camera request response)
   \<and> payload_copied (feature_command_is_done camera (feature_name request)) (\<lambda>v. v)
       (is_done response) (is_done (feature_command_is_done_service camera request response))"
  by (simp add: feature_command_is_done_service_def error_forwarded_def payload_copied_def split: sum.splits)

lemma feature_command_run_service_forwards:
  "error_forwarded (feature_command_run camera (feature_name request)) response (feature_command_run_service camera request response)"
  by (simp add: feature_command_run_service_def error_forwarded_def payload_copied_def split: sum.splits)

lemma feature_enum_get_service_forwards:
  "error_forwarded (feature_enum_get camera (feature_name request)) response (feature_enum_get_service camera request response)
   \<and> payload_copied (feature_enum_get camera (feature_name request)) (\<lambda>v. v)
       (response_value response) (response_value (feature_enum_get_service camera request response))"
  by (simp add: feature_enum_get_service_def error_forwarded_def payload_copied_def split: sum.splits)

lemma feature_enum_set_service_forwards:
  "error_forwarded (feature_enum_set camera (feature_name request) (request_value request)) response (feature_enum_set_service camera request response)"
  by (simp add: feature_enum_set_service_def error_forwarded_def payload_copied_def split: sum.splits)

lemma feature_enum_info_get_service_forwards:
  "error_forwarded (feature_enum_info_get camera (feature_name request)) response (feature_enum_info_get_service camera request response)
   \<and> payload_copied (feature_enum_info_get camera (feature_name request)) (\<lambda>v. fst v)
       (possible_values response) (possible_values (feature_enum_info_get_service camera request response))
   \<and> payload_copied (feature_enum_info_get camera (feature_name request)) (\<lambda>v. snd v)
       (available_values response) (available_values (feature_enum_info_get_service camera request response))"
  by (simp add: feature_enum_info_get_service_def error_forwarded_def payload_copied_def split: sum.splits)

lemma feature_enum_as_int_get_service_forwards:
  "error_forwarded (feature_enum_as_int_get camera (feature_name request) (request_option request)) response (feature_enum_as_int_get_service camera request response)
   \<and> payload_copied (feature_enum_as_int_get camera (feature_name request) (request_option request)) (\<lambda>v. v)
       (response_value response) (response_value (feature_enum_as_int_get_service camera request response))"
  by (simp add: feature_enum_as_int_get_service_def error_forwarded_def payload_copied_def split: sum.splits)

lemma feature_enum_as_string_get_service_forwards:
  "error_forwarded (feature_enum_as_string_get camera (feature_name request) (request_value request)) response (feature_enum_as_string_get_service camera request response)
   \<and> payload_copied (feature_enum_as_string_get camera (feature_name request) (request_value request)) (\<lambda>v. v)
       (response_option response) (response_option (feature_enum_as_string_get_service camera request response))"
  by (simp add: feature_enum_as_string_get_service_def error_forwarded_def payload_copied_def split: sum.splits)

lemma feature_raw_get_service_forwards:
  "error_forwarded (feature_raw_get camera (feature_name request)) response (feature_raw_get_service camera request response)
   \<and> payload_copied (feature_raw_get camera (feature_name request)) (\<lambda>v. v)
       (response_buffer response) (response_buffer (feature_raw_get_service camera request response))
   \<and> payload_copied (feature_raw_get camera (feature_name request)) (\<lambda>v. length v)
       (buffer_size response) (buffer_size (feature_raw_get_service camera request response))"
  by (simp add: feature_raw_get_service_def error_forwarded_def payload_copied_def split: sum.splits)

lemma feature_raw_set_service_forwards:
  "error_forwarded (feature_raw_set camera (feature_name request) (request_buffer request)) response (feature_raw_set_service camera request response)"
  by (simp add: feature_raw_set_service_def error_forwarded_def payload_copied_def split: sum.splits)

lemma feature_raw_info_get_service_forwards:
  "error_forwarded (feature_raw_info_get camera (feature_name request)) response (feature_raw_info_get_service camera request response)
   \<and> payload_copied (feature_raw_info_get camera (feature_name request)) (\<lambda>v. v)
       (max_length response) (max_length (feature_raw_info_get_service camera request response))"
  by (simp add: feature_raw_info_get_service_def error_forwarded_def payload_copied_def split: sum.splits)

lemma feature_access_mode_get_service_forwards:
  "error_forwarded (feature_access_mode_get camera (feature_name request)) response (feature_access_mode_get_service camera request response)
   \<and> payload_copied (feature_access_mode_get camera (feature_name request)) (\<lambda>v. fst v)
       (is_readable response) (is_readable (feature_access_mode_get_service camera request response))
   \<and> payload_copied (feature_access_mode_get camera (feature_name request)) (\<lambda>v. snd v)
       (is_writeable response) (is_writeable (feature_access_mode_get_service camera request response))"
  by (simp add: feature_access_mode_get_service_def error_forwarded_def payload_copied_def split: sum.splits)

lemma features_list_get_service_forwards:
  "error_forwarded (features_list_get camera) response (features_list_get_service camera request response)
   \<and> payload_copied (features_list_get camera) (\<lambda>v. v)
       (feature_list response) (feature_list (features_list_get_service camera request response))"
  by (simp add: features_list_get_service_def error_forwarded_def payload_copied_def split: sum.splits)

lemma settings_save_service_forwards:
  "error_forwarded (settings_save camera (filename request)) response (settings_save_service camera request response)"
  by (simp add: settings_save_service_def error_forwarded_def payload_copied_def split: sum.splits)

lemma settings_load_service_forwards:
  "error_forwarded (settings_load camera (filename request)) response (settings_load_service camera request response)"
  by (simp add: settings_load_service_def error_forwarded_def payload_copied_def split: sum.splits)

lemma overwrite_flags:
  fixes f g :: feature_flags
  shows "f\<lparr>flag_none := flag_none g, flag_read := flag_read g, flag_write := flag_write g,
     flag_volatile := flag_volatile g, flag_modify_write := flag_modify_write g\<rparr> = g"
  by (cases f, cases g) simp

lemma overwrite_entry:
  fixes x d :: feature_info_entry
  shows "x\<lparr>name := name d, category := category d, entry_display_name := entry_display_name d,
     sfnc_namespace := sfnc_namespace d, unit_name := unit_name d, data_type := data_type d,
     flags := (flags x)
       \<lparr>flag_none := flag_none (flags d), flag_read := flag_read (flags d),
        flag_write := flag_write (flags d), flag_volatile := flag_volatile (flags d),
        flag_modify_write := flag_modify_write (flags d)\<rparr>,
     polling_time := polling_time d\<rparr> = d"
  unfolding overwrite_flags by (cases x, cases d) simp

lemma copy_feature_info_copies:
  "length out = index + length rest \<Longrightarrow>
     copy_feature_info index rest out = Some (take index out @ rest)"
proof (induction rest arbitrary: index out)
  case Nil
  then show ?case by simp
next
  case (Cons data rest)
  let ?out = "out[index := data]"
  have lt: "index < length out" using Cons.prems by simp
  have "copy_feature_info (index + 1) rest ?out = Some (take (index + 1) ?out @ rest)"
    using Cons.prems by (intro Cons.IH) simp
  moreover have "take (index + 1) ?out = take index out @ [data]"
    using lt by (simp add: take_Suc_conv_app_nth)
  ultimately show ?case
    using lt by (simp add: overwrite_entry)
qed

lemma length_resize: "length (resize n xs) = n"
  by (simp add: resize_def)

lemma feature_info_query_service_forwards:
  "\<exists>response'. feature_info_query_service camera request response = Returns response'
     \<and> error_forwarded (feature_info_query_list camera (feature_names request)) response response'
     \<and> payload_copied (feature_info_query_list camera (feature_names request)) (\<lambda>v. v)
          (feature_info response) (feature_info response')"
proof (cases "feature_info_query_list camera (feature_names request)")
  case (Inl e)
  then show ?thesis
    by (simp add: feature_info_query_service_def error_forwarded_def payload_copied_def)
next
  case (Inr v)
  have "copy_feature_info 0 v (resize (length v) (feature_info response)) = Some v"
    using copy_feature_info_copies [of "resize (length v) (feature_info response)" 0 v]
    by (simp add: length_resize)
  then show ?thesis
    using Inr by (simp add: feature_info_query_service_def error_forwarded_def payload_copied_def)
qed

lemma status_service_forwards:
  "error_forwarded (camera_info_get camera) response (status_service camera request response)
   \<and> payload_copied (camera_info_get camera) info_display_name
       (display_name response) (display_name (status_service camera request response))
   \<and> payload_copied (camera_info_get camera) info_model_name
       (model_name response) (model_name (status_service camera request response))
   \<and> payload_copied (camera_info_get camera) info_firmware_version
       (device_firmware_version response) (device_firmware_version (status_service camera request response))
   \<and> payload_copied (camera_info_get camera) info_device_id
       (device_id response) (device_id (status_service camera request response))
   \<and> payload_copied (camera_info_get camera) info_device_user_id
       (device_user_id response) (device_user_id (status_service camera request response))
   \<and> payload_copied (camera_info_get camera) info_device_serial_number
       (device_serial_number response) (device_serial_number (status_service camera request response))
   \<and> payload_copied (camera_info_get camera) info_interface_id
       (interface_id response) (interface_id (status_service camera request response))
   \<and> payload_copied (camera_info_get camera) info_transport_layer_id
       (transport_layer_id response) (transport_layer_id (status_service camera request response))
   \<and> payload_copied (camera_info_get camera) info_streaming
       (streaming response) (streaming (status_service camera request response))
   \<and> payload_copied (camera_info_get camera) info_width
       (width response) (width (status_service camera request response))
   \<and> payload_copied (camera_info_get camera) info_height
       (height response) (height (status_service camera request response))
   \<and> payload_copied (camera_info_get camera) info_frame_rate
       (frame_rate response) (frame_rate (status_service camera request response))
   \<and> payload_copied (camera_info_get camera) info_pixel_format
       (pixel_format response) (pixel_format (status_service camera request response))
   \<and> payload_copied (camera_info_get camera) info_trigger_mode
       (trigger_mode response) (trigger_mode (status_service camera request response))
   \<and> payload_copied (camera_info_get camera) info_trigger_source
       (trigger_source response) (trigger_source (status_service camera request response))
   \<and> payload_copied (camera_info_get camera)
       (\<lambda>info. case info_ip_address info of Some a \<Rightarrow> a | None \<Rightarrow> ip_address response)
       (ip_address response) (ip_address (status_service camera request response))
   \<and> payload_copied (camera_info_get camera)
       (\<lambda>info. case info_mac_address info of Some a \<Rightarrow> a | None \<Rightarrow> mac_address response)
       (mac_address response) (mac_address (status_service camera request response))"
proof (cases "camera_info_get camera")
  case (Inl e)
  then show ?thesis
    by (simp add: status_service_def error_forwarded_def payload_copied_def)
next
  case (Inr info)
  show ?thesis
    by (cases "info_ip_address info"; cases "info_mac_address info")
      (simp_all add: Inr status_service_def error_forwarded_def payload_copied_def Let_def)
qed

lemma stream_start_service_forwards:
  "error_forwarded (reply_result reply) response (fst (stream_start_service reply st response))"
  by (simp add: stream_start_service_def start_streaming_def Let_def error_forwarded_def
      split: sum.splits)

lemma stream_stop_service_forwards:
  "error_forwarded (reply_result reply) response (fst (stream_stop_service reply st response))"
  by (simp add: stream_stop_service_def Let_def error_forwarded_def split: sum.splits)

text \<open>
  Claim C8. Every service handler forwards the camera's result: when the camera call
  fails, the response's error is the code of the camera's error; when it succeeds, the
  error is left as the response had it and each payload field holds the value the camera
  returned. The feature-info list is copied entry by entry without an index ever out of
  range, and the two address fields of the status are assigned when the camera reports
  them.
\<close>

theorem handlers_forward_camera_result:
  "(\<forall>camera request response.
       error_forwarded (feature_int_get camera (feature_name request)) response (feature_int_get_service camera request response)
     \<and> payload_copied (feature_int_get camera (feature_name request)) (\<lambda>v. v)
         (response_value response) (response_value (feature_int_get_service camera request response)))
   \<and> (\<forall>camera request response.
       error_forwarded (feature_int_set camera (feature_name request) (request_value request)) response (feature_int_set_service camera request response))
   \<and> (\<forall>camera request response.
       error_forwarded (feature_int_info_get camera (feature_name request)) response (feature_int_info_get_service camera request response)
     \<and> payload_copied (feature_int_info_get camera (feature_name request)) (\<lambda>v. fst v)
         (response_min response) (response_min (feature_int_info_get_service camera request response))
     \<and> payload_copied (feature_int_info_get camera (feature_name request)) (\<lambda>v. fst (snd v))
         (response_max response) (response_max (feature_int_info_get_service camera request response))
     \<and> payload_copied (feature_int_info_get camera (feature_name request)) (\<lambda>v. snd (snd v))
         (inc response) (inc (feature_int_info_get_service camera request response)))
   \<and> (\<forall>camera request response.
       error_forwarded (feature_float_get camera (feature_name request)) response (feature_float_get_service camera request response)
     \<and> payload_copied (feature_float_get camera (feature_name request)) (\<lambda>v. v)
         (response_value response) (response_value (feature_float_get_service camera request response)))
   \<and> (\<forall>camera request response.
       error_forwarded (feature_float_set camera (feature_name request) (request_value request)) response (feature_float_set_service camera request response))
   \<and> (\<forall>camera request response.
       error_forwarded (feature_float_info_get camera (feature_name request)) response (feature_float_info_get_service camera request response)
     \<and> payload_copied (feature_float_info_get camera (feature_name request)) (\<lambda>v. info_min v)
         (response_min response) (response_min (feature_float_info_get_service camera request response))
     \<and> payload_copied (feature_float_info_get camera (feature_name request)) (\<lambda>v. info_max v)
         (response_max response) (response_max (feature_float_info_get_service camera request response))
     \<and> payload_copied (feature_float_info_get camera (feature_name request)) (\<lambda>v. info_inc v)
         (inc response) (inc (feature_float_info_get_service camera request response))
     \<and> payload_copied (feature_float_info_get camera (feature_name request)) (\<lambda>v. info_inc_available v)
         (inc_available response) (inc_available (feature_float_info_get_service camera request response)))
   \<and> (\<forall>camera request response.
       error_forwarded (feature_string_get camera (feature_name request)) response (feature_string_get_service camera request response)
     \<and> payload_copied (feature_string_get camera (feature_name request)) (\<lambda>v. v)
         (response_value response) (response_value (feature_string_get_service camera request response)))
   \<and> (\<forall>camera request response.
       error_forwarded (feature_string_set camera (feature_name request) (request_value request)) response (feature_string_set_service camera request response))
   \<and> (\<forall>camera request response.
       error_forwarded (feature_string_info_get camera (feature_name request)) response (feature_string_info_get_service camera request response)
     \<and> payload_copied (feature_string_info_get camera (feature_name request)) (\<lambda>v. v)
         (max_length response) (max_length (feature_string_info_get_service camera request response)))
   \<and> (\<forall>camera request response.
       error_forwarded (feature_bool_get camera (feature_name request)) response (feature_bool_get_service camera request response)
     \<and> payload_copied (feature_bool_get camera (feature_name request)) (\<lambda>v. v)
         (response_value response) (response_value (feature_bool_get_service camera request response)))
   \<and> (\<forall>camera request response.
       error_forwarded (feature_bool_set camera (feature_name request) (request_value request)) response (feature_bool_set_service camera request response))
   \<and> (\<forall>camera request response.
       error_forwarded (feature_command_is_done camera (feature_name request)) response (feature_command_is_done_service camera request response)
     \<and> payload_copied (feature_command_is_done camera (feature_name request)) (\<lambda>v. v)
         (is_done response) (is_done (feature_command_is_done_service camera request response)))
   \<and> (\<forall>camera request response.
       error_forwarded (feature_command_run camera (feature_name request)) response (feature_command_run_service camera request response))
   \<and> (\<forall>camera request response.
       error_forwarded (feature_enum_get camera (feature_name request)) response (feature_enum_get_service camera request response)
     \<and> payload_copied (feature_enum_get camera (feature_name request)) (\<lambda>v. v)
         (response_value response) (response_value (feature_enum_get_service camera request response)))
   \<and> (\<forall>camera request response.
       error_forwarded (feature_enum_set camera (feature_name request) (request_value request)) response (feature_enum_set_service camera request response))
   \<and> (\<forall>camera request response.
       error_forwarded (feature_enum_info_get camera (feature_name request)) response (feature_enum_info_get_service camera request response)
     \<and> payload_copied (feature_enum_info_get camera (feature_name request)) (\<lambda>v. fst v)
         (possible_values response) (possible_values (feature_enum_info_get_service camera request response))
     \<and> payload_copied (feature_enum_info_get camera (feature_name request)) (\<lambda>v. snd v)
         (available_values response) (available_values (feature_enum_info_get_service camera request response)))
   \<and> (\<forall>camera request response.
       error_forwarded (feature_enum_as_int_get camera (feature_name request) (request_option request)) response (feature_enum_as_int_get_service camera request response)
     \<and> payload_copied (feature_enum_as_int_get camera (feature_name request) (request_option request)) (\<lambda>v. v)
         (response_value response) (response_value (feature_enum_as_int_get_service camera request response)))
   \<and> (\<forall>camera request response.
       error_forwarded (feature_enum_as_string_get camera (feature_name request) (request_value request)) response (feature_enum_as_string_get_service camera request response)
     \<and> payload_copied (feature_enum_as_string_get camera (feature_name request) (request_value request)) (\<lambda>v. v)
         (response_option response) (response_option (feature_enum_as_string_get_service camera request response)))
   \<and> (\<forall>camera request response.
       error_forwarded (feature_raw_get camera (feature_name request)) response (feature_raw_get_service camera request response)
     \<and> payload_copied (feature_raw_get camera (feature_name request)) (\<lambda>v. v)
         (response_buffer response) (response_buffer (feature_raw_get_service camera request response))
     \<and> payload_copied (feature_raw_get camera (feature_name request)) (\<lambda>v. length v)
         (buffer_size response) (buffer_size (feature_raw_get_service camera request response)))
   \<and> (\<forall>camera request response.
       error_forwarded (feature_raw_set camera (feature_name request) (request_buffer request)) response (feature_raw_set_service camera request response))
   \<and> (\<forall>camera request response.
       error_forwarded (feature_raw_info_get camera (feature_name request)) response (feature_raw_info_get_service camera request response)
     \<and> payload_copied (feature_raw_info_get camera (feature_name request)) (\<lambda>v. v)
         (max_length response) (max_length (feature_raw_info_get_service camera request response)))
   \<and> (\<forall>camera request response.
       error_forwarded (feature_access_mode_get camera (feature_name request)) response (feature_access_mode_get_service camera request response)
     \<and> payload_copied (feature_access_mode_get camera (feature_name request)) (\<lambda>v. fst v)
         (is_readable response) (is_readable (feature_access_mode_get_service camera request response))
     \<and> payload_copied (feature_access_mode_get camera (feature_name request)) (\<lambda>v. snd v)
         (is_writeable response) (is_writeable (feature_access_mode_get_service camera request response)))
   \<and> (\<forall>camera request response.
       error_forwarded (features_list_get camera) response (features_list_get_service camera request response)
     \<and> payload_copied (features_list_get camera) (\<lambda>v. v)
         (feature_list response) (feature_list (features_list_get_service camera request response)))
   \<and> (\<forall>camera request response.
       error_forwarded (settings_save camera (filename request)) response (settings_save_service camera request response))
   \<and> (\<forall>camera request response.
       error_forwarded (settings_load camera (filename request)) response (settings_load_service camera request response))
   \<and> (\<forall>camera request response.
       \<exists>response'. feature_info_query_service camera request response = Returns response'
         \<and> error_forwarded (feature_info_query_list camera (feature_names request)) response response'
         \<and> payload_copied (feature_info_query_list camera (feature_names request)) (\<lambda>v. v)
              (feature_info response) (feature_info response'))
   \<and> (\<forall>camera request response.
       error_forwarded (camera_info_get camera) response (status_service camera request response)
     \<and> payload_copied (camera_info_get camera) info_display_name
         (display_name response) (display_name (status_service camera request response))
     \<and> payload_copied (camera_info_get camera) info_model_name
         (model_name response) (model_name (status_service camera request response))
     \<and> payload_copied (camera_info_get camera) info_firmware_version
         (device_firmware_version response) (device_firmware_version (status_service camera request response))
     \<and> payload_copied (camera_info_get camera) info_device_id
         (device_id response) (device_id (status_service camera request response))
     \<and> payload_copied (camera_info_get camera) info_device_user_id
         (device_user_id response) (device_user_id (status_service camera request response))
     \<and> payload_copied (camera_info_get camera) info_device_serial_number
         (device_serial_number response) (device_serial_number (status_service camera request response))
     \<and> payload_copied (camera_info_get camera) info_interface_id
         (interface_id response) (interface_id (status_service camera request response))
     \<and> payload_copied (camera_info_get camera) info_transport_layer_id
         (transport_layer_id response) (transport_layer_id (status_service camera request response))
     \<and> payload_copied (camera_info_get camera) info_streaming
         (streaming response) (streaming (status_service camera request response))
     \<and> payload_copied (camera_info_get camera) info_width
         (width response) (width (status_service camera request response))
     \<and> payload_copied (camera_info_get camera) info_height
         (height response) (height (status_service camera request response))
     \<and> payload_copied (camera_info_get camera) info_frame_rate
         (frame_rate response) (frame_rate (status_service camera request response))
     \<and> payload_copied (camera_info_get camera) info_pixel_format
         (pixel_format response) (pixel_format (status_service camera request response))
     \<and> payload_copied (camera_info_get camera) info_trigger_mode
         (trigger_mode response) (trigger_mode (status_service camera request response))
     \<and> payload_copied (camera_info_get camera) info_trigger_source
         (trigger_source response) (trigger_source (status_service camera request response))
     \<and> payload_copied (camera_info_get camera)
         (\<lambda>info. case info_ip_address info of Some a \<Rightarrow> a | None \<Rightarrow> ip_address response)
         (ip_address response) (ip_address (status_service camera request response))
     \<and> payload_copied (camera_info_get camera)
         (\<lambda>info. case info_mac_address info of Some a \<Rightarrow> a | None \<Rightarrow> mac_address response)
         (mac_address response) (mac_address (status_service camera request response)))
   \<and> (\<forall>reply st response.
       error_forwarded (reply_result reply) response (fst (stream_start_service reply st response)))
   \<and> (\<forall>reply st response.
       error_forwarded (reply_result reply) response (fst (stream_stop_service reply st response)))"
  by (simp only: simp_thms
      feature_int_get_service_forwards
      feature_int_set_service_forwards
      feature_int_info_get_service_forwards
      feature_float_get_service_forwards
      feature_float_set_service_forwards
      feature_float_info_get_service_forwards
      feature_string_get_service_forwards
      feature_string_set_service_forwards
      feature_string_info_get_service_forwards
      feature_bool_get_service_forwards
      feature_bool_set_service_forwards
      feature_command_is_done_service_forwards
      feature_command_run_service_forwards
      feature_enum_get_service_forwards
      feature_enum_set_service_forwards
      feature_enum_info_get_service_forwards
      feature_enum_as_int_get_service_forwards
      feature_enum_as_string_get_service_forwards
      feature_raw_get_service_forwards
      feature_raw_set_service_forwards
      feature_raw_info_get_service_forwards
      feature_access_mode_get_service_forwards
      features_list_get_service_forwards
      settings_save_service_forwards
      settings_load_service_forwards
      feature_info_query_service_forwards
      status_service_forwards
      stream_start_service_forwards
      stream_stop_service_forwards)

theorem handlers_forward_camera_result_witness:
  "error (feature_int_get_service (failing_camera (- 4)) \<lparr>feature_name = ''Width''\<rparr>
      \<lparr>error = 0, response_value = 0\<rparr>) = - 4
   \<and> response_value (feature_int_get_service
        ((failing_camera (- 4))\<lparr>feature_int_get := \<lambda>n. Inr 640\<rparr>) \<lparr>feature_name = ''Width''\<rparr>
        \<lparr>error = 0, response_value = 0\<rparr>) = 640
   \<and> error (feature_int_get_service
        ((failing_camera (- 4))\<lparr>feature_int_get := \<lambda>n. Inr 640\<rparr>) \<lparr>feature_name = ''Width''\<rparr>
        \<lparr>error = 0, response_value = 0\<rparr>) = 0"
  using handlers_forward_camera_result
      [THEN conjunct1, rule_format, of "failing_camera (- 4)" "\<lparr>feature_name = ''Width''\<rparr>"
        "\<lparr>error = 0, response_value = 0\<rparr>"]
    handlers_forward_camera_result
      [THEN conjunct1, rule_format,
        of "(failing_camera (- 4))\<lparr>feature_int_get := \<lambda>n. Inr 640\<rparr>"
          "\<lparr>feature_name = ''Width''\<rparr>" "\<lparr>error = 0, response_value = 0\<rparr>"]
  by (simp add: error_forwarded_def payload_copied_def failing_camera_def)

text \<open>
  Claim C6, as amended. The \<^verbatim>\<open>stream_stop\<close> handler always returns a response, after one
  call of the camera's stop and without logging, and forwards the result of that call:
  the response reports success when the camera's stop succeeds, and carries the code of
  the device's error when the stop fails.
\<close>

theorem stream_stop_forwards_stop_result:
  "error (fst (stream_stop_service reply st response))
      = (case reply_result reply of Inl e \<Rightarrow> code e | Inr u \<Rightarrow> error response)
   \<and> (reply_result reply = Inr () \<and> error response = VmbErrorSuccess \<longrightarrow>
        error (fst (stream_stop_service reply st response)) = VmbErrorSuccess)
   \<and> (reply_result reply = Inl e \<longrightarrow>
        error (fst (stream_stop_service reply st response)) = code e)
   \<and> fst (snd (stream_stop_service reply st response)) = [Camera_stop_streaming]"
  using stream_stop_service_forwards [of reply response st]
  by (auto simp: error_forwarded_def stream_stop_service_def Let_def split: sum.splits)

theorem stream_stop_forwards_stop_result_witness:
  "error (fst (stream_stop_service \<lparr>reply_result = Inr (), reply_streaming = False\<rparr>
      (initial_node\<lparr>is_streaming := True\<rparr>) \<lparr>error = VmbErrorSuccess\<rparr>)) = VmbErrorSuccess
   \<and> error (fst (stream_stop_service \<lparr>reply_result = Inl (Error 7), reply_streaming = True\<rparr>
      (initial_node\<lparr>is_streaming := True\<rparr>) \<lparr>error = VmbErrorSuccess\<rparr>)) = 7
   \<and> fst (snd (stream_stop_service \<lparr>reply_result = Inr (), reply_streaming = False\<rparr>
      (initial_node\<lparr>is_streaming := True\<rparr>) \<lparr>error = VmbErrorSuccess\<rparr>)) = [Camera_stop_streaming]"
  using stream_stop_forwards_stop_result
      [of "\<lparr>reply_result = Inr (), reply_streaming = False\<rparr>"
        "initial_node\<lparr>is_streaming := True\<rparr>" "\<lparr>error = VmbErrorSuccess\<rparr>"]
    stream_stop_forwards_stop_result
      [of "\<lparr>reply_result = Inl (Error 7), reply_streaming = True\<rparr>"
        "initial_node\<lparr>is_streaming := True\<rparr>" "\<lparr>error = VmbErrorSuccess\<rparr>" "Error 7"]
  by simp

text \<open>
  Claim C6 as stated fails: when the camera's stop fails with the code \<open>-4\<close> while the
  stream is active, the response of \<^verbatim>\<open>stream_stop\<close> carries \<open>-4\<close>, not success.
\<close>

theorem stream_stop_reports_device_error:
  "error (fst (stream_stop_service \<lparr>reply_result = Inl (Error (- 4)), reply_streaming = True\<rparr>
      (initial_node\<lparr>is_streaming := True\<rparr>) \<lparr>error = VmbErrorSuccess\<rparr>)) = - 4
   \<and> error (fst (stream_stop_service \<lparr>reply_result = Inl (Error (- 4)), reply_streaming = True\<rparr>
      (initial_node\<lparr>is_streaming := True\<rparr>) \<lparr>error = VmbErrorSuccess\<rparr>)) \<noteq> VmbErrorSuccess"
  by (simp add: stream_stop_service_def Let_def VmbErrorSuccess_def)

end
